theory Spec2Isabelle
  imports Main
begin

chapter \<open>The model\<close>

section \<open>HTTP exchanges as the pages see them\<close>

text \<open>
  The pages talk to the backend through \<^verbatim>\<open>fetch\<close>. The promise either rejects (a
  network error or an abort, carrying the exception's message) or resolves to a response
  with a status code and a status text. Reading the body with \<^verbatim>\<open>response.json()\<close>
  either throws (with a message), or yields \<^verbatim>\<open>null\<close> (on which every property access
  throws a TypeError), or yields an object. The fields of a body object are given the types
  the code expects of them; a field that is absent, \<^verbatim>\<open>null\<close> or the empty string is
  falsy, and an absent or \<^verbatim>\<open>null\<close> field is \<open>None\<close> here.
\<close>

datatype 'a settled = Rejected string | Resolved 'a

datatype 'b parsed = ParseError string | JsonNull | Json 'b

record head =
  status :: nat
  statusText :: string

record 'b response = head +
  body :: "'b parsed"

definition ok :: "'m head_scheme \<Rightarrow> bool" where
  "ok r = (200 \<le> status r \<and> status r \<le> 299)"

text \<open>JavaScript's \<^verbatim>\<open>a || d\<close> on an optional string with a string default.\<close>

definition or_else :: "string option \<Rightarrow> string \<Rightarrow> string" where
  "or_else a d = (case a of None \<Rightarrow> d | Some s \<Rightarrow> if s = [] then d else s)"

text \<open>Truthiness of an optional string.\<close>

definition truthy :: "string option \<Rightarrow> bool" where
  "truthy a = (case a of None \<Rightarrow> False | Some s \<Rightarrow> s \<noteq> [])"

text \<open>The message of the TypeError raised by reading a property of \<^verbatim>\<open>null\<close>.\<close>

definition null_property_error :: "string \<Rightarrow> string" where
  "null_property_error field =
     ''Cannot read properties of null (reading '' @ [CHR 0x27] @ field @ [CHR 0x27] @ '')''"

text \<open>Decimal text of a number, as a template literal prints it.\<close>

definition digit_char :: "nat \<Rightarrow> char" where
  "digit_char d =
     (if d = 0 then CHR ''0'' else if d = 1 then CHR ''1'' else if d = 2 then CHR ''2''
      else if d = 3 then CHR ''3'' else if d = 4 then CHR ''4'' else if d = 5 then CHR ''5''
      else if d = 6 then CHR ''6'' else if d = 7 then CHR ''7'' else if d = 8 then CHR ''8''
      else CHR ''9'')"

fun show_nat :: "nat \<Rightarrow> string" where
  "show_nat n =
     (if n < 10 then [digit_char n] else show_nat (n div 10) @ [digit_char (n mod 10)])"

text \<open>\<^verbatim>\<open>String.prototype.includes\<close>.\<close>

fun starts_with :: "string \<Rightarrow> string \<Rightarrow> bool" where
  "starts_with s [] = True"
| "starts_with [] (c # cs) = False"
| "starts_with (x # xs) (c # cs) = (x = c \<and> starts_with xs cs)"

fun str_includes :: "string \<Rightarrow> string \<Rightarrow> bool" where
  "str_includes [] sub = (sub = [])"
| "str_includes (x # xs) sub = (starts_with (x # xs) sub \<or> str_includes xs sub)"

section \<open>The confirmation page: poll the upload status, then finalize\<close>

text \<open>
  \<^verbatim>\<open>ConfirmedPageContent\<close> (frontend/app/client-form) starts an interval timer that calls
  \<^verbatim>\<open>checkStatusAndFinalize\<close> every 3000 ms, and calls it once at once. The function is
  asynchronous: the timer does not wait for an invocation to finish, so invocations overlap
  and share the refs \<^verbatim>\<open>pollCountRef\<close>, \<^verbatim>\<open>isFinalizingRef\<close> and
  \<^verbatim>\<open>pollIntervalRef\<close>. The model is a step function on the component's state, one step
  per event of the browser's event loop: a timer tick, the arrival of the answer to an
  invocation's status request, the arrival of the answer to its finalize request, and the
  unmount cleanup. An invocation is named by the attempt number it captured in
  \<^verbatim>\<open>currentAttempt\<close>. A response is taken to arrive together with its body.
\<close>

record status_data =
  ready :: bool
  completed_files :: "nat option"
  expected_files :: "nat option"

record finalize_data =
  inProgress :: bool
  success :: bool
  sheet_url :: "string option"
  error_field :: "string option"
  detail :: "string option"

datatype request = GetUploadStatus string | GetFinalizeUpload string

datatype await = AwaitStatus | AwaitFinalize

text \<open>
  The progress line shown while processing is a fixed template around numbers; it is kept
  as a tag with those numbers (the percentage is computed in floating point and left out).
\<close>

datatype status_message =
    MsgCheckingStatus
  | MsgCheckingAttempt nat
  | MsgWaitingForUpload
  | MsgProcessingFiles nat nat
  | MsgPushingToSheets
  | MsgFinalizingInProgress
  | MsgRetryingPush
  | MsgConnectionIssue

record poller =
  uploadId :: string
  pollCount :: nat
  isFinalizing :: bool
  pollInterval :: bool
  isProcessing :: bool
  isComplete :: bool
  error :: "string option"
  statusMessage :: status_message
  sheetUrl :: "string option"
  inflight :: "nat \<rightharpoonup> await"
  requests :: "request list"

definition maxPolls :: nat where
  "maxPolls = 240"

definition stopPolling :: "poller \<Rightarrow> poller" where
  "stopPolling s = s\<lparr>pollInterval := False\<rparr>"

text \<open>The three statements that end every giving-up branch.\<close>

definition fail_with :: "string \<Rightarrow> poller \<Rightarrow> poller" where
  "fail_with msg s = (stopPolling s)\<lparr>error := Some msg, isProcessing := False\<rparr>"

text \<open>The outer \<^verbatim>\<open>catch\<close>: it reads the shared counter, not the captured attempt.\<close>

definition on_exception :: "string \<Rightarrow> poller \<Rightarrow> poller" where
  "on_exception msg s =
     (let s1 = s\<lparr>isFinalizing := False\<rparr>
      in if pollCount s1 < 50 then s1\<lparr>statusMessage := MsgConnectionIssue\<rparr>
         else fail_with (or_else (Some msg) ''Failed to communicate with server'') s1)"

text \<open>Entry of an invocation, up to its first \<^verbatim>\<open>await\<close>.\<close>

definition start_invocation :: "poller \<Rightarrow> poller" where
  "start_invocation s =
     (let n = Suc (pollCount s)
      in s\<lparr>pollCount := n,
           statusMessage := MsgCheckingAttempt n,
           inflight := (inflight s)(n \<mapsto> AwaitStatus),
           requests := requests s @ [GetUploadStatus (uploadId s)]\<rparr>)"

text \<open>Invocation \<open>n\<close> resumes with the answer to its status request.\<close>

definition on_status :: "nat \<Rightarrow> status_data response settled \<Rightarrow> poller \<Rightarrow> poller" where
  "on_status n r s =
     (case r of
        Rejected msg \<Rightarrow> on_exception msg s
      | Resolved resp \<Rightarrow>
          if status resp = 404 then
            (if n \<ge> maxPolls then fail_with ''Upload not found. Please try again.'' s
             else s\<lparr>statusMessage := MsgWaitingForUpload\<rparr>)
          else
            (case body resp of
               ParseError m \<Rightarrow>
                 if n < 30 then s else fail_with ''Failed to communicate with server'' s
             | JsonNull \<Rightarrow> on_exception (null_property_error ''ready'') s
             | Json d \<Rightarrow>
                 if \<not> ready d then
                   (if n \<ge> maxPolls then
                      fail_with ''Processing is taking longer than expected. Please check back in a few minutes.'' s
                    else s\<lparr>statusMessage :=
                           MsgProcessingFiles
                             (case completed_files d of None \<Rightarrow> 0 | Some c \<Rightarrow> c)
                             (case expected_files d of None \<Rightarrow> 1
                              | Some e \<Rightarrow> if e = 0 then 1 else e)\<rparr>)
                 else if isFinalizing s then s
                 else s\<lparr>isFinalizing := True,
                        statusMessage := MsgPushingToSheets,
                        inflight := (inflight s)(n \<mapsto> AwaitFinalize),
                        requests := requests s @ [GetFinalizeUpload (uploadId s)]\<rparr>))"

text \<open>Invocation \<open>n\<close> resumes with the answer to its finalize request.\<close>

definition on_finalize :: "nat \<Rightarrow> finalize_data response settled \<Rightarrow> poller \<Rightarrow> poller" where
  "on_finalize n r s =
     (case r of
        Rejected msg \<Rightarrow> on_exception msg s
      | Resolved resp \<Rightarrow>
          (case body resp of
             ParseError m \<Rightarrow>
               (let s1 = s\<lparr>isFinalizing := False\<rparr>
                in if n < 50 then s1 else fail_with ''Failed to push data to Google Sheets'' s1)
           | JsonNull \<Rightarrow> on_exception (null_property_error ''inProgress'') s
           | Json d \<Rightarrow>
               if inProgress d then s\<lparr>statusMessage := MsgFinalizingInProgress\<rparr>
               else if ok resp \<and> success d then
                 (stopPolling s)\<lparr>isComplete := True,
                                 sheetUrl := (if truthy (sheet_url d) then sheet_url d else None),
                                 isProcessing := False\<rparr>
               else
                 (let s1 = s\<lparr>isFinalizing := False\<rparr>;
                      errorMsg = or_else (error_field d) (or_else (detail d) [])
                  in if n < 60 then s1\<lparr>statusMessage := MsgRetryingPush\<rparr>
                     else fail_with (or_else (Some errorMsg) ''Failed to push data to Google Sheets'') s1)))"

datatype event =
    Tick
  | StatusArrives nat "status_data response settled"
  | FinalizeArrives nat "finalize_data response settled"
  | Unmount

text \<open>
  A tick runs only while the interval is set; an answer resumes the invocation that waits
  for it; the cleanup clears the interval.
\<close>

definition step :: "poller \<Rightarrow> event \<Rightarrow> poller" where
  "step s ev =
     (case ev of
        Tick \<Rightarrow> if pollInterval s then start_invocation s else s
      | StatusArrives n r \<Rightarrow>
          if inflight s n = Some AwaitStatus
          then on_status n r (s\<lparr>inflight := (inflight s)(n := None)\<rparr>) else s
      | FinalizeArrives n r \<Rightarrow>
          if inflight s n = Some AwaitFinalize
          then on_finalize n r (s\<lparr>inflight := (inflight s)(n := None)\<rparr>) else s
      | Unmount \<Rightarrow> stopPolling s)"

text \<open>
  The effect body for an upload id: reset the counter and the flags it sets, install the
  interval, and make the immediate first call. \<^verbatim>\<open>isFinalizingRef\<close> starts false.
\<close>

definition start_polling :: "string \<Rightarrow> poller" where
  "start_polling uid =
     start_invocation
       \<lparr>uploadId = uid, pollCount = 0, isFinalizing = False, pollInterval = True,
        isProcessing = True, isComplete = False, error = None,
        statusMessage = MsgCheckingStatus, sheetUrl = None,
        inflight = Map.empty, requests = []\<rparr>"

text \<open>
  A finalize attempt fails when its request rejects, when its body cannot be read, or when
  the body neither reports progress nor a success on an ok response. Each failing branch
  resets \<^verbatim>\<open>isFinalizingRef\<close> and compares a counter with its own threshold before
  giving up: the captured attempt with 60 for an unsuccessful answer and with 50 for an
  unreadable body, the shared counter with 50 for an exception.
\<close>

definition finalize_failed :: "finalize_data response settled \<Rightarrow> bool" where
  "finalize_failed r =
     (case r of
        Rejected msg \<Rightarrow> True
      | Resolved resp \<Rightarrow>
          (case body resp of
             Json d \<Rightarrow> \<not> inProgress d \<and> \<not> (ok resp \<and> success d)
           | _ \<Rightarrow> True))"

definition retry_budget_left :: "poller \<Rightarrow> nat \<Rightarrow> finalize_data response settled \<Rightarrow> bool" where
  "retry_budget_left s n r =
     (case r of
        Rejected msg \<Rightarrow> pollCount s < 50
      | Resolved resp \<Rightarrow>
          (case body resp of
             ParseError m \<Rightarrow> n < 50
           | JsonNull \<Rightarrow> pollCount s < 50
           | Json d \<Rightarrow> n < 60))"

text \<open>Sample answers of the backend, used to run the model.\<close>

definition ready_response :: "status_data response" where
  "ready_response =
     \<lparr>status = 200, statusText = ''OK'',
      body = Json \<lparr>ready = True, completed_files = Some 2, expected_files = Some 2\<rparr>\<rparr>"

definition in_progress_response :: "finalize_data response" where
  "in_progress_response =
     \<lparr>status = 200, statusText = ''OK'',
      body = Json \<lparr>inProgress = True, success = False, sheet_url = None,
                   error_field = None, detail = None\<rparr>\<rparr>"

definition sink_unavailable_response :: "finalize_data response" where
  "sink_unavailable_response =
     \<lparr>status = 500, statusText = ''Internal Server Error'',
      body = Json \<lparr>inProgress = False, success = False, sheet_url = None,
                   error_field = Some ''Sheets unavailable'', detail = None\<rparr>\<rparr>"

definition pushed_response :: "finalize_data response" where
  "pushed_response =
     \<lparr>status = 200, statusText = ''OK'',
      body = Json \<lparr>inProgress = False, success = True, sheet_url = Some ''https://sheet/1'',
                   error_field = None, detail = None\<rparr>\<rparr>"

definition waiting_for_finalize :: poller where
  "waiting_for_finalize = step (start_polling ''job-1'') (StatusArrives 1 (Resolved ready_response))"

text \<open>Running the page over a list of events.\<close>

definition poll_run :: "poller \<Rightarrow> event list \<Rightarrow> poller" where
  "poll_run s evs = foldl step s evs"

text \<open>
  An upload that is still being extracted: from attempt \<open>n\<close> on, \<open>k\<close> status polls in
  a row are answered not ready, each followed by the next tick. Then the upload whose
  extraction takes 59 polls, becomes ready at the 60th, and whose first finalize call finds
  the sink unavailable.
\<close>

definition not_ready_response :: "status_data response" where
  "not_ready_response =
     \<lparr>status = 200, statusText = ''OK'',
      body = Json \<lparr>ready = False, completed_files = Some 1, expected_files = Some 2\<rparr>\<rparr>"

fun still_processing :: "nat \<Rightarrow> nat \<Rightarrow> event list" where
  "still_processing n 0 = []"
| "still_processing n (Suc k) =
     StatusArrives n (Resolved not_ready_response) # Tick # still_processing (Suc n) k"

definition late_ready_run :: "event list" where
  "late_ready_run =
     still_processing 1 59
     @ [StatusArrives 60 (Resolved ready_response),
        FinalizeArrives 60 (Resolved sink_unavailable_response)]"

section \<open>The results page: poll for the merged results\<close>

text \<open>
  \<^verbatim>\<open>QCNewResultsContent\<close> (frontend/app/qc-new-results/page.tsx) runs an effect that
  declares \<^verbatim>\<open>retryCount\<close>, \<^verbatim>\<open>maxRetries\<close>, \<^verbatim>\<open>timeoutId\<close> and
  \<^verbatim>\<open>isCancelled\<close>, calls the asynchronous \<^verbatim>\<open>fetchResults\<close> once, and returns a
  cleanup. \<^verbatim>\<open>fetchResults\<close> re-arms itself with \<^verbatim>\<open>setTimeout(fetchResults, 3000)\<close>.
  The model is again a step function over the events of the event loop: the pending timer
  fires, the fetch settles, the body of an error response settles, the body of an ok
  response settles, and the cleanup runs. \<open>timeoutId\<close> holds the delay of the timer that
  is pending, and \<open>None\<close> once it has fired or has been cleared. \<open>closure_results\<close> is
  the value of \<^verbatim>\<open>results\<close> that the effect's closure captured; \<open>results\<close> is the
  component state written by \<^verbatim>\<open>setResults\<close>. The payload type \<open>'r\<close> is the merged
  result object.
\<close>

record error_data =
  e_detail :: "string option"
  e_error :: "string option"

record 'r results_data =
  r_success :: bool
  merged :: "'r option"
  r_error :: "string option"

datatype qc_wait = Idle | AwaitFetch | AwaitErrorBody head | AwaitBody

datatype status_line =
    LineInitializing
  | LineChecking nat nat
  | LineNotReady nat nat
  | LineProcessing nat nat
  | LineConnectionError nat nat

record 'r fetcher =
  target :: string
  retryCount :: nat
  timeoutId :: "nat option"
  isCancelled :: bool
  closure_results :: "'r option"
  waiting :: qc_wait
  issued :: "string list"
  loading :: bool
  error_text :: string
  results :: "'r option"
  progress :: status_line

definition maxRetries :: nat where
  "maxRetries = 600"

text \<open>
  \<^verbatim>\<open>retryCount++; setStatusMessage(...); timeoutId = setTimeout(fetchResults, 3000); return\<close>
\<close>

definition schedule_retry :: "(nat \<Rightarrow> nat \<Rightarrow> status_line) \<Rightarrow> 'r fetcher \<Rightarrow> 'r fetcher" where
  "schedule_retry line s =
     s\<lparr>retryCount := Suc (retryCount s),
       progress := line (Suc (retryCount s)) maxRetries,
       timeoutId := Some 3000\<rparr>"

text \<open>The \<^verbatim>\<open>catch\<close> block of \<^verbatim>\<open>fetchResults\<close>.\<close>

definition on_throw :: "string \<Rightarrow> 'r fetcher \<Rightarrow> 'r fetcher" where
  "on_throw msg s =
     (if retryCount s < maxRetries \<and> \<not> isCancelled s \<and> closure_results s = None
      then schedule_retry LineConnectionError s
      else if closure_results s = None
      then s\<lparr>error_text :=
               or_else (Some msg)
                 ''Failed to load results after multiple attempts. Please check if the backend is running on Railway.'',
             loading := False\<rparr>
      else s)"

text \<open>Entry of \<^verbatim>\<open>fetchResults\<close>, up to \<^verbatim>\<open>await fetch(...)\<close>.\<close>

definition fetchResults :: "'r fetcher \<Rightarrow> 'r fetcher" where
  "fetchResults s =
     (if isCancelled s \<or> closure_results s \<noteq> None then s
      else s\<lparr>progress := LineChecking (retryCount s + 1) maxRetries,
             issued := issued s @ [target s],
             waiting := AwaitFetch\<rparr>)"

text \<open>After \<^verbatim>\<open>await fetch(...)\<close>.\<close>

definition on_fetch :: "head settled \<Rightarrow> 'r fetcher \<Rightarrow> 'r fetcher" where
  "on_fetch r s =
     (case r of
        Rejected msg \<Rightarrow> on_throw msg s
      | Resolved h \<Rightarrow>
          if isCancelled s \<or> closure_results s \<noteq> None then s
          else if \<not> ok h then s\<lparr>waiting := AwaitErrorBody h\<rparr>
          else s\<lparr>waiting := AwaitBody\<rparr>)"

text \<open>After \<^verbatim>\<open>await response.json()\<close> of a response that is not ok.\<close>

definition on_error_body :: "head \<Rightarrow> error_data parsed \<Rightarrow> 'r fetcher \<Rightarrow> 'r fetcher" where
  "on_error_body h b s =
     (let errorMsg =
            (case b of
               Json d \<Rightarrow> or_else (e_detail d) (or_else (e_error d) (''HTTP '' @ show_nat (status h)))
             | _ \<Rightarrow> or_else (Some (statusText h)) (''HTTP '' @ show_nat (status h)))
      in if (status h = 404 \<or> status h = 500) \<and> retryCount s < maxRetries \<and> \<not> isCancelled s
         then schedule_retry LineNotReady s
         else on_throw (''Failed to fetch results: '' @ errorMsg) s)"

text \<open>After \<^verbatim>\<open>await response.json()\<close> of an ok response.\<close>

definition on_body :: "'r results_data parsed \<Rightarrow> 'r fetcher \<Rightarrow> 'r fetcher" where
  "on_body b s =
     (case b of
        ParseError m \<Rightarrow> on_throw m s
      | JsonNull \<Rightarrow>
          if isCancelled s \<or> closure_results s \<noteq> None then s
          else on_throw (null_property_error ''success'') s
      | Json d \<Rightarrow>
          if isCancelled s \<or> closure_results s \<noteq> None then s
          else if \<not> r_success d \<or> merged d = None then
            (if (case r_error d of None \<Rightarrow> False
                 | Some e \<Rightarrow> e \<noteq> [] \<and> str_includes e ''not ready'')
             then
               (if retryCount s < maxRetries \<and> \<not> isCancelled s
                then schedule_retry LineProcessing s
                else s\<lparr>error_text :=
                         ''Results are taking longer than expected (30+ minutes). The QC task may have failed. Please check Railway logs or try uploading again.'',
                       loading := False\<rparr>)
             else on_throw (or_else (r_error d) ''Unknown error occurred'') s)
          else s\<lparr>results := merged d, loading := False\<rparr>)"

datatype 'r qc_event =
    TimerFires
  | FetchSettles "head settled"
  | ErrorBodySettles "error_data parsed"
  | BodySettles "'r results_data parsed"
  | Cleanup

text \<open>
  An event resumes the code that waits for it and is ignored otherwise. The cleanup sets
  \<^verbatim>\<open>isCancelled\<close> and clears the pending timer.
\<close>

definition qc_step :: "'r fetcher \<Rightarrow> 'r qc_event \<Rightarrow> 'r fetcher" where
  "qc_step s ev =
     (case ev of
        TimerFires \<Rightarrow>
          (case timeoutId s of None \<Rightarrow> s | Some d \<Rightarrow> fetchResults (s\<lparr>timeoutId := None\<rparr>))
      | FetchSettles r \<Rightarrow>
          if waiting s = AwaitFetch then on_fetch r (s\<lparr>waiting := Idle\<rparr>) else s
      | ErrorBodySettles b \<Rightarrow>
          (case waiting s of
             AwaitErrorBody h \<Rightarrow> on_error_body h b (s\<lparr>waiting := Idle\<rparr>)
           | _ \<Rightarrow> s)
      | BodySettles b \<Rightarrow>
          if waiting s = AwaitBody then on_body b (s\<lparr>waiting := Idle\<rparr>) else s
      | Cleanup \<Rightarrow> s\<lparr>isCancelled := True, timeoutId := None\<rparr>)"

definition qc_run :: "'r fetcher \<Rightarrow> 'r qc_event list \<Rightarrow> 'r fetcher" where
  "qc_run s evs = foldl qc_step s evs"

text \<open>
  The effect body: nothing when results are loaded; an error when the upload id is missing;
  nothing while the API URL is still empty; otherwise fresh closure variables and the first
  call of \<^verbatim>\<open>fetchResults\<close>.
\<close>

definition run_effect :: "string option \<Rightarrow> string \<Rightarrow> 'r fetcher \<Rightarrow> 'r fetcher" where
  "run_effect uid api s =
     (if results s \<noteq> None then s
      else if \<not> truthy uid \<or> api = [] then
        (if \<not> truthy uid then s\<lparr>error_text := ''No upload ID provided'', loading := False\<rparr>
         else s)
      else fetchResults
             (s\<lparr>target := api @ ''/qc-new/unified-results/'' @ or_else uid [],
                retryCount := 0, timeoutId := None, isCancelled := False,
                closure_results := results s\<rparr>))"

definition mounted :: "'r fetcher" where
  "mounted =
     \<lparr>target = [], retryCount = 0, timeoutId = None, isCancelled = False,
      closure_results = None, waiting = Idle, issued = [], loading = True,
      error_text = [], results = None, progress = LineInitializing\<rparr>"

definition start_fetching :: "string option \<Rightarrow> string \<Rightarrow> 'r fetcher" where
  "start_fetching uid api = run_effect uid api mounted"

text \<open>
  An event is enabled when something waits for it. \<open>work_left\<close> bounds the number of
  enabled events that can still happen.
\<close>

definition enabled :: "'r fetcher \<Rightarrow> 'r qc_event \<Rightarrow> bool" where
  "enabled s ev =
     (case ev of
        TimerFires \<Rightarrow> timeoutId s \<noteq> None
      | FetchSettles r \<Rightarrow> waiting s = AwaitFetch
      | ErrorBodySettles b \<Rightarrow> (case waiting s of AwaitErrorBody h \<Rightarrow> True | _ \<Rightarrow> False)
      | BodySettles b \<Rightarrow> waiting s = AwaitBody
      | Cleanup \<Rightarrow> \<not> isCancelled s)"

fun valid_run :: "'r fetcher \<Rightarrow> 'r qc_event list \<Rightarrow> bool" where
  "valid_run s [] = True"
| "valid_run s (e # es) = (enabled s e \<and> valid_run (qc_step s e) es)"

definition work_left :: "'r fetcher \<Rightarrow> nat" where
  "work_left s =
     4 * (maxRetries - retryCount s)
     + (case timeoutId s of None \<Rightarrow> 0 | Some d \<Rightarrow> 3)
     + (case waiting s of Idle \<Rightarrow> 0 | AwaitFetch \<Rightarrow> 2 | AwaitErrorBody h \<Rightarrow> 1 | AwaitBody \<Rightarrow> 1)
     + (if isCancelled s then 0 else 1)"

text \<open>Nothing pending: no timer and no promise awaited.\<close>

definition quiescent :: "'r fetcher \<Rightarrow> bool" where
  "quiescent s = (waiting s = Idle \<and> timeoutId s = None)"

text \<open>What holds of every state the effect can reach.\<close>

definition chain_inv :: "'r fetcher \<Rightarrow> bool" where
  "chain_inv s =
     (length (issued s) + (case timeoutId s of None \<Rightarrow> 0 | Some d \<Rightarrow> 1) \<le> Suc (retryCount s)
      \<and> retryCount s \<le> maxRetries
      \<and> (timeoutId s = None \<or> timeoutId s = Some 3000)
      \<and> (timeoutId s \<noteq> None \<longrightarrow> waiting s = Idle \<and> \<not> isCancelled s)
      \<and> closure_results s = None
      \<and> (results s \<noteq> None \<longrightarrow> quiescent s)
      \<and> (quiescent s \<and> \<not> isCancelled s \<and> issued s \<noteq> []
           \<longrightarrow> results s \<noteq> None \<or> error_text s \<noteq> []))"

text \<open>A backend that answers 404 to every request, and the run it induces.\<close>

definition not_found_head :: head where
  "not_found_head = \<lparr>status = 404, statusText = ''Not Found''\<rparr>"

definition not_found_round :: "unit qc_event list" where
  "not_found_round =
     [FetchSettles (Resolved not_found_head),
      ErrorBodySettles (Json \<lparr>e_detail = Some ''Results not found'', e_error = None\<rparr>),
      TimerFires]"

definition never_ready_run :: "unit qc_event list" where
  "never_ready_run = concat (replicate 600 not_found_round)"

text \<open>A run that loads results at the first attempt, and events that may still arrive after it.\<close>

definition ok_head :: head where
  "ok_head = \<lparr>status = 200, statusText = ''OK''\<rparr>"

definition loaded_run :: "unit qc_event list" where
  "loaded_run =
     [FetchSettles (Resolved ok_head),
      BodySettles (Json \<lparr>r_success = True, merged = Some (), r_error = None\<rparr>)]"

definition late_events :: "unit qc_event list" where
  "late_events =
     [TimerFires, FetchSettles (Resolved not_found_head), BodySettles JsonNull, Cleanup,
      TimerFires]"

section \<open>The upload page: submitting the documents\<close>

text \<open>
  \<^verbatim>\<open>QCNewPage.handleUpload\<close> checks the selected files, builds the multipart form, posts
  it to \<^verbatim>\<open>/qc-new/upload-unified\<close> and, on an answer that carries an upload id,
  navigates to the results page. A file is known by its name. The model takes the user name
  and the outcome of the request as arguments and returns the component state, which also
  records the requests sent and the navigation.
\<close>

datatype form_value = FilePart string | TextPart string

record upload_request =
  url :: string
  form_data :: "(string \<times> form_value) list"
  user_id_header :: string

record upload_data =
  u_message :: "string option"
  u_error :: "string option"
  u_detail :: "string option"
  upload_id :: "string option"
  task_id :: "string option"

text \<open>
  The request is aborted by the 120 s timer, or rejects for another reason, or is answered.
\<close>

datatype upload_outcome = Aborted | Failed string | Answered "upload_data response"

record upload_page =
  plCertificateFile :: "string option"
  glCertificateFile :: "string option"
  acordCertificateFile :: "string option"
  glAcordCertificateFile :: "string option"
  policyFile :: "string option"
  uploading :: bool
  form_uploadId :: string
  form_error :: string
  form_results :: "string option"
  form_apiUrl :: string
  sent :: "upload_request list"
  navigated :: "string option"

text \<open>\<^verbatim>\<open>if (file) formData.append(name, file)\<close>\<close>

definition append_file :: "string \<Rightarrow> string option \<Rightarrow> (string \<times> form_value) list" where
  "append_file name f = (case f of None \<Rightarrow> [] | Some file \<Rightarrow> [(name, FilePart file)])"

definition build_form :: "string option \<Rightarrow> upload_page \<Rightarrow> (string \<times> form_value) list" where
  "build_form user s =
     append_file ''pl_certificate_pdf'' (plCertificateFile s)
     @ append_file ''gl_certificate_pdf'' (glCertificateFile s)
     @ append_file ''acord_certificate_pdf'' (acordCertificateFile s)
     @ append_file ''gl_acord_certificate_pdf'' (glAcordCertificateFile s)
     @ append_file ''policy_pdf'' (policyFile s)
     @ [(''username'', TextPart (or_else user ''user''))]"

text \<open>The outer \<^verbatim>\<open>catch\<close> of \<^verbatim>\<open>handleUpload\<close>.\<close>

definition upload_failed :: "string \<Rightarrow> upload_page \<Rightarrow> upload_page" where
  "upload_failed msg s =
     s\<lparr>form_error := or_else (Some msg) ''Failed to upload files'', uploading := False\<rparr>"

text \<open>
  When \<^verbatim>\<open>response.json()\<close> throws, the handler calls \<^verbatim>\<open>response.text()\<close> on the
  body that \<^verbatim>\<open>json()\<close> has already consumed; that call throws the TypeError whose
  message reaches the outer \<^verbatim>\<open>catch\<close>. The wording of the message is the
  browser's; one browser's wording stands for it.
\<close>

definition body_used_error :: string where
  "body_used_error = ''Body has already been consumed.''"

definition handleUpload :: "string option \<Rightarrow> upload_outcome \<Rightarrow> upload_page \<Rightarrow> upload_page" where
  "handleUpload user outcome s =
     (if plCertificateFile s = None \<and> glCertificateFile s = None then
        s\<lparr>form_error := ''Please upload at least one certificate (PL or GL) and the policy PDF''\<rparr>
      else if policyFile s = None then
        s\<lparr>form_error := ''Please upload the policy PDF''\<rparr>
      else
        (let s1 = s\<lparr>uploading := True, form_error := [], form_results := None\<rparr>;
             s2 = s1\<lparr>sent := sent s1 @
                          [\<lparr>url = form_apiUrl s1 @ ''/qc-new/upload-unified'',
                            form_data = build_form user s1,
                            user_id_header = or_else user ''user''\<rparr>]\<rparr>
         in case outcome of
              Aborted \<Rightarrow>
                upload_failed
                  ''Upload timeout: Large files may take up to 2 minutes to process. Please try again or use smaller files.''
                  s2
            | Failed msg \<Rightarrow> upload_failed msg s2
            | Answered resp \<Rightarrow>
                (case body resp of
                   ParseError m \<Rightarrow> upload_failed body_used_error s2
                 | JsonNull \<Rightarrow>
                     upload_failed
                       (null_property_error (if ok resp then ''upload_id'' else ''message'')) s2
                 | Json d \<Rightarrow>
                     if \<not> ok resp then
                       upload_failed
                         (or_else (u_message d)
                            (or_else (u_error d)
                               (or_else (u_detail d)
                                  (''Upload failed ('' @ show_nat (status resp) @ '')''))))
                         s2
                     else
                       (case upload_id d of
                          None \<Rightarrow>
                            upload_failed
                              ''Server did not return upload_id. Task may not have been queued.'' s2
                        | Some newUploadId \<Rightarrow>
                            if newUploadId = [] then
                              upload_failed
                                ''Server did not return upload_id. Task may not have been queued.'' s2
                            else
                              s2\<lparr>form_uploadId := newUploadId, form_error := [],
                                 navigated := Some (''/qc-new-results?id='' @ newUploadId)\<rparr>))))"

text \<open>The page as first rendered, and two selections of files.\<close>

definition empty_page :: upload_page where
  "empty_page =
     \<lparr>plCertificateFile = None, glCertificateFile = None, acordCertificateFile = None,
      glAcordCertificateFile = None, policyFile = None, uploading = False,
      form_uploadId = [], form_error = [], form_results = None,
      form_apiUrl = ''http://localhost:8000'', sent = [], navigated = None\<rparr>"

definition policy_and_acord :: upload_page where
  "policy_and_acord =
     empty_page\<lparr>policyFile := Some ''policy.pdf'', acordCertificateFile := Some ''acord25.pdf''\<rparr>"

definition policy_and_pl :: upload_page where
  "policy_and_pl =
     empty_page\<lparr>policyFile := Some ''policy.pdf'', plCertificateFile := Some ''pl-cert.pdf''\<rparr>"

definition queued_answer :: upload_outcome where
  "queued_answer =
     Answered \<lparr>status = 200, statusText = ''OK'',
               body = Json \<lparr>u_message = Some ''queued'', u_error = None, u_detail = None,
                            upload_id = Some ''u-77'', task_id = Some ''t-1''\<rparr>\<rparr>"

section \<open>The extracted-fields display: flattening nested data\<close>

text \<open>
  \<^verbatim>\<open>flattenData\<close> of \<^verbatim>\<open>ExtractedFieldsDisplay\<close> walks a JavaScript object. A value is
  \<^verbatim>\<open>null\<close>, \<^verbatim>\<open>undefined\<close>, a boolean, a number, a string, an array, or an object,
  whose entries are listed in the order in which \<^verbatim>\<open>Object.entries\<close> enumerates them.
\<close>

datatype jsval =
    JNull
  | JUndefined
  | JBool bool
  | JNum int
  | JStr string
  | JArr "jsval list"
  | JObj "(string \<times> jsval) list"

text \<open>\<^verbatim>\<open>k in o\<close> and \<^verbatim>\<open>o.k\<close> on the entries of an object.\<close>

definition has_key :: "string \<Rightarrow> (string \<times> jsval) list \<Rightarrow> bool" where
  "has_key k kvs = (map_of kvs k \<noteq> None)"

definition get_prop :: "(string \<times> jsval) list \<Rightarrow> string \<Rightarrow> jsval" where
  "get_prop kvs k = (case map_of kvs k of None \<Rightarrow> JUndefined | Some v \<Rightarrow> v)"

text \<open>\<^verbatim>\<open>prefix ? `${prefix} > ${key}` : key\<close>\<close>

definition new_key :: "string \<Rightarrow> string \<Rightarrow> string" where
  "new_key prefix key = (if prefix \<noteq> [] then prefix @ '' > '' @ key else key)"

text \<open>
  The inner loop over the entries of a flagged field's nested value: an entry that is an
  object with a \<^verbatim>\<open>value\<close> key is kept, any other is wrapped with the parent's colour.
  The test \<^verbatim>\<open>typeof nestedData === 'object' && 'value' in nestedData\<close> throws a TypeError on
  \<^verbatim>\<open>null\<close>; the result is then \<open>None\<close>.
\<close>

definition keep_or_wrap :: "jsval \<Rightarrow> string \<times> jsval \<Rightarrow> (string \<times> jsval) option" where
  "keep_or_wrap colour e =
     (case e of (nestedKey, nestedData) \<Rightarrow>
        (case nestedData of
           JNull \<Rightarrow> None
         | JObj dk \<Rightarrow>
             if has_key ''value'' dk then Some (nestedKey, nestedData)
             else Some (nestedKey, JObj [(''value'', nestedData), (''color'', colour)])
         | _ \<Rightarrow> Some (nestedKey, JObj [(''value'', nestedData), (''color'', colour)])))"

text \<open>
  \<open>flattenData isFlagged obj prefix\<close>: the entries pushed for the first key, followed by
  those of the remaining keys; \<open>None\<close> when a TypeError is thrown on the way.
\<close>

function flattenData ::
  "bool \<Rightarrow> (string \<times> jsval) list \<Rightarrow> string \<Rightarrow> (string \<times> jsval) list option" where
  "flattenData isFlagged [] prefix = Some []"
| "flattenData isFlagged ((key, fieldData) # rest) prefix =
     (case
        (case fieldData of
           JNull \<Rightarrow> Some []
         | JUndefined \<Rightarrow> Some []
         | JObj kvs \<Rightarrow>
             if isFlagged \<and> has_key ''value'' kvs \<and> has_key ''color'' kvs then
               (case get_prop kvs ''value'' of
                  JObj vkvs \<Rightarrow>
                    (case flattenData isFlagged vkvs (new_key prefix key) of
                       None \<Rightarrow> None
                     | Some nestedEntries \<Rightarrow>
                         those (map (keep_or_wrap (get_prop kvs ''color'')) nestedEntries))
                | _ \<Rightarrow> Some [(new_key prefix key, fieldData)])
             else flattenData isFlagged kvs (new_key prefix key)
         | _ \<Rightarrow>
             Some [(new_key prefix key,
                    JObj [(''value'', fieldData), (''color'', JStr ''black'')])])
      of
        None \<Rightarrow> None
      | Some pushed \<Rightarrow>
          (case flattenData isFlagged rest prefix of
             None \<Rightarrow> None
           | Some more_entries \<Rightarrow> Some (pushed @ more_entries)))"
  by pat_completeness auto
termination
proof (relation "measure (\<lambda>(isFlagged, obj, prefix). size (JObj obj))")
  show "wf (measure (\<lambda>(isFlagged, obj, prefix). size (JObj obj)))"
    by simp
next
  fix isFlagged :: bool and key :: string and fieldData :: jsval
    and rest :: "(string \<times> jsval) list" and prefix :: string
    and kvs :: "(string \<times> jsval) list" and v :: jsval and vkvs :: "(string \<times> jsval) list"
  assume "fieldData = JObj kvs" and "get_prop kvs ''value'' = JObj vkvs"
  have look: "map_of xs k = Some w \<Longrightarrow> size w \<le> size (JObj xs)"
    for xs :: "(string \<times> jsval) list" and k w
    by (induction xs) (auto split: if_splits)
  have "size (JObj vkvs) \<le> size (JObj kvs)"
    using \<open>get_prop kvs ''value'' = JObj vkvs\<close> look [of kvs "''value''" "JObj vkvs"]
    by (auto simp add: get_prop_def split: option.splits)
  then show "((isFlagged, vkvs, new_key prefix key), (isFlagged, (key, fieldData) # rest, prefix))
             \<in> measure (\<lambda>(isFlagged, obj, prefix). size (JObj obj))"
    using \<open>fieldData = JObj kvs\<close> by simp
qed auto

text \<open>The keys whose value is neither \<^verbatim>\<open>null\<close> nor \<^verbatim>\<open>undefined\<close>.\<close>

definition present :: "string \<times> jsval \<Rightarrow> bool" where
  "present e = (snd e \<noteq> JNull \<and> snd e \<noteq> JUndefined)"

text \<open>An output entry that pairs a value with a colour tag, and the tag it carries.\<close>

definition tagged :: "jsval \<Rightarrow> bool" where
  "tagged d = (case d of JObj dk \<Rightarrow> has_key ''value'' dk \<and> has_key ''color'' dk | _ \<Rightarrow> False)"

definition colour_of :: "jsval \<Rightarrow> jsval" where
  "colour_of d = (case d of JObj dk \<Rightarrow> get_prop dk ''color'' | _ \<Rightarrow> JUndefined)"

text \<open>Every entry is tagged, and carries the default colour when the data is not flagged.\<close>

definition well_tagged :: "bool \<Rightarrow> (string \<times> jsval) list \<Rightarrow> bool" where
  "well_tagged isFlagged es =
     (\<forall>e\<in>set es. tagged (snd e) \<and> (\<not> isFlagged \<longrightarrow> colour_of (snd e) = JStr ''black''))"

text \<open>A value that is pushed as a regular field: not absent and not an object.\<close>

definition leaf :: "jsval \<Rightarrow> bool" where
  "leaf d = (case d of JNull \<Rightarrow> False | JUndefined \<Rightarrow> False | JObj kvs \<Rightarrow> False | _ \<Rightarrow> True)"

text \<open>A policy object with a missing field, a nested object and a flagged field.\<close>

definition sample_fields :: "(string \<times> jsval) list" where
  "sample_fields =
     [(''policy_number'', JStr ''PN-1''),
      (''expiration_date'', JNull),
      (''insured'', JObj [(''name'', JStr ''Acme''), (''phone'', JUndefined)]),
      (''limit'', JObj [(''value'', JNum 1000), (''color'', JStr ''green'')])]"

section \<open>The results page: rendering the reconciliation output\<close>

text \<open>
  Once results are loaded, \<^verbatim>\<open>QCNewResultsContent\<close> renders them. The objects it reads
  (\<^verbatim>\<open>data\<close>, \<^verbatim>\<open>item\<close>) are untyped; the code only reads named fields, tests them
  for truthiness and prints them. Such an object is a finite map from field names to the
  text printed for the field; an absent or \<^verbatim>\<open>null\<close> field is \<open>None\<close>. Objects
  that are enumerated with \<^verbatim>\<open>Object.entries\<close> are association lists in enumeration
  order. What is rendered is a list of blocks that hold the printed texts and the class
  that colours each status badge. Left out are the PDF viewer, the panels that list a
  certificate's extracted fields and the summary counts, none of which shows a verdict.
\<close>

type_synonym item = "string \<rightharpoonup> string"

text \<open>\<^verbatim>\<open>a ?? d\<close>, a chain \<^verbatim>\<open>a || b || ... || d\<close>, and a child \<^verbatim>\<open>{a}\<close> of an element.\<close>

definition nullish_or :: "string option \<Rightarrow> string \<Rightarrow> string" where
  "nullish_or a d = (case a of None \<Rightarrow> d | Some s \<Rightarrow> s)"

fun first_truthy :: "string option list \<Rightarrow> string option" where
  "first_truthy [] = None"
| "first_truthy (a # as) = (if truthy a then a else first_truthy as)"

definition printed :: "string option \<Rightarrow> string" where
  "printed a = (case a of None \<Rightarrow> [] | Some s \<Rightarrow> s)"

text \<open>\<^verbatim>\<open>a && a !== "null"\<close>: the text when it is to be shown.\<close>

definition shown_unless_null :: "string option \<Rightarrow> string option" where
  "shown_unless_null a = (if truthy a \<and> a \<noteq> Some ''null'' then a else None)"

definition shown_if_truthy :: "string option \<Rightarrow> string option" where
  "shown_if_truthy a = (if truthy a then a else None)"

text \<open>\<^verbatim>\<open>s.replace(/_/g, " ")\<close> and \<^verbatim>\<open>toUpperCase()\<close> on ASCII letters.\<close>

definition spaced :: "string \<Rightarrow> string" where
  "spaced s = map (\<lambda>c. if c = CHR ''_'' then CHR '' '' else c) s"

definition upper_char :: "char \<Rightarrow> char" where
  "upper_char c =
     (case map_of (zip ''abcdefghijklmnopqrstuvwxyz'' ''ABCDEFGHIJKLMNOPQRSTUVWXYZ'') c of
        None \<Rightarrow> c | Some u \<Rightarrow> u)"

definition field_label :: "string \<Rightarrow> string" where
  "field_label field = map upper_char (spaced field)"

subsection \<open>Status badges\<close>

record badge =
  badge_class :: string
  badge_text :: string

text \<open>The three-way choice of class that every verdict badge but the presence badge uses.\<close>

definition status_class :: "string option \<Rightarrow> string" where
  "status_class st =
     (if st = Some ''MATCH'' then ''bg-green-100 text-green-700''
      else if st = Some ''MISMATCH'' \<or> st = Some ''NOT_FOUND'' then ''bg-red-100 text-red-700''
      else ''bg-yellow-100 text-yellow-700'')"

definition status_badge :: "string option \<Rightarrow> badge" where
  "status_badge st = \<lparr>badge_class = status_class st, badge_text = printed st\<rparr>"

definition presence_badge :: "string option \<Rightarrow> badge" where
  "presence_badge st =
     \<lparr>badge_class = (if st = Some ''PRESENT'' then ''bg-green-100 text-green-700''
                     else ''bg-red-100 text-red-700''),
      badge_text = printed st\<rparr>"

subsection \<open>\<^verbatim>\<open>ValidationRow\<close>\<close>

record row_view =
  vr_label :: string
  vr_status :: badge
  vr_certificate :: string
  vr_policy :: string
  vr_evidence :: "string option"

definition ValidationRow ::
  "string \<Rightarrow> string option \<Rightarrow> string option \<Rightarrow> string option \<Rightarrow> string option \<Rightarrow> row_view" where
  "ValidationRow label certValue policyValue st evidence =
     \<lparr>vr_label = label,
      vr_status = status_badge st,
      vr_certificate = or_else certValue ''N/A'',
      vr_policy = or_else policyValue ''N/A'',
      vr_evidence = shown_if_truthy evidence\<rparr>"

text \<open>A core validation entry, and a GL address validation item, as rows.\<close>

definition core_row :: "string \<times> item \<Rightarrow> row_view" where
  "core_row e =
     (case e of (field, data) \<Rightarrow>
        ValidationRow (field_label field) (data ''certificate_value'') (data ''policy_value'')
          (data ''status'') (data ''evidence''))"

definition address_row :: "item \<Rightarrow> row_view" where
  "address_row it =
     ValidationRow
       (or_else (map_option field_label (it ''address_type'')) ''Address'')
       (Some (or_else (it ''cert_value'') ''N/A''))
       (Some (or_else (it ''policy_value'') ''Not found''))
       (it ''status'') (it ''evidence'')"

subsection \<open>\<^verbatim>\<open>CoverageItem\<close>\<close>

record coverage_view =
  cv_border :: string
  cv_name :: string
  cv_variation_badge :: "string option"
  cv_status :: badge
  cv_certificate :: string
  cv_policy :: string
  cv_variation_notice :: "string option"
  cv_notes :: "string option"
  cv_evidence :: "(string \<times> string) list"

definition is_name_variation :: "item \<Rightarrow> bool" where
  "is_name_variation it = (truthy (it ''match_type'') \<and> it ''match_type'' = Some ''NAME_VARIATION'')"

text \<open>An evidence box with its heading, shown when the text is truthy and not \<^verbatim>\<open>"null"\<close>.\<close>

definition evidence_box :: "string \<Rightarrow> string option \<Rightarrow> (string \<times> string) list" where
  "evidence_box heading ev =
     (case shown_unless_null ev of None \<Rightarrow> [] | Some t \<Rightarrow> [(heading, t)])"

definition CoverageItem :: "item \<Rightarrow> coverage_view" where
  "CoverageItem it =
     (let isGLLimitItem = truthy (it ''cert_limit_key'');
          isAdditionalInterest = (truthy (it ''cert_interest_name'') \<and> \<not> isGLLimitItem);
          coverageName =
            (if isGLLimitItem then
               or_else (first_truthy [it ''cert_limit_label'', it ''cert_limit_key'']) ''Limit''
             else if isAdditionalInterest then printed (it ''cert_interest_name'')
             else or_else
                    (first_truthy
                       [it ''cert_building_name'', it ''cert_bpp_name'', it ''cert_bi_name'',
                        it ''cert_ms_name'', it ''cert_eb_name'', it ''cert_os_name'',
                        it ''cert_ed_name'', it ''cert_pc_name'', it ''cert_theft_name'',
                        it ''cert_wind_hail_name''])
                    ''Coverage'');
          certValue =
            (if isGLLimitItem then
               or_else (first_truthy [it ''cert_value'', it ''cert_limit_value'']) ''N/A''
             else if isAdditionalInterest then
               printed (it ''cert_interest_name'')
               @ (if truthy (it ''cert_interest_address'')
                  then '' - '' @ printed (it ''cert_interest_address'') else [])
             else or_else
                    (first_truthy
                       [it ''cert_building_value'', it ''cert_bpp_value'', it ''cert_bi_value'',
                        it ''cert_ms_value'', it ''cert_eb_value'', it ''cert_os_value'',
                        it ''cert_ed_value'', it ''cert_pc_value'', it ''cert_theft_value'',
                        it ''cert_wind_hail_value'', it ''cert_value''])
                    ''N/A'');
          policyValue =
            (if isGLLimitItem then
               or_else (first_truthy [it ''policy_value'', it ''policy_limit_value'']) ''Not found''
             else if isAdditionalInterest then
               or_else (it ''policy_interest_name'') ''Not found''
               @ (if truthy (it ''policy_interest_address'')
                  then '' - '' @ printed (it ''policy_interest_address'') else [])
               @ (if truthy (it ''policy_interest_type'')
                  then '' ('' @ printed (it ''policy_interest_type'') @ '')'' else [])
             else or_else
                    (first_truthy
                       [it ''policy_building_value'', it ''policy_bpp_value'',
                        it ''policy_bi_value'', it ''policy_ms_value'', it ''policy_ms_split'',
                        it ''policy_eb_value'', it ''policy_os_value'', it ''policy_ed_value'',
                        it ''policy_pc_value'', it ''policy_theft_value'',
                        it ''policy_wind_hail_value'', it ''policy_value''])
                    ''N/A'');
          evidenceDecl =
            first_truthy [it ''evidence_declarations'', it ''evidence_causes_of_loss''];
          evidenceEndorsement =
            first_truthy [it ''evidence_endorsements'', it ''evidence_deductible_endorsement''];
          evidenceAdditionalInterest = it ''evidence''
      in \<lparr>cv_border =
             (if it ''status'' = Some ''MATCH'' then ''#10b981''
              else if it ''status'' = Some ''MISMATCH'' \<or> it ''status'' = Some ''NOT_FOUND''
              then ''#ef4444'' else ''#f59e0b''),
           cv_name = coverageName,
           cv_variation_badge = (if is_name_variation it then Some ''OCR Variation'' else None),
           cv_status = status_badge (it ''status''),
           cv_certificate = certValue,
           cv_policy = policyValue,
           cv_variation_notice =
             (if isAdditionalInterest \<and> is_name_variation it
              then Some ''Name Variation Detected: Names are similar but not identical (likely OCR error)''
              else None),
           cv_notes = shown_unless_null (it ''notes''),
           cv_evidence =
             (if truthy evidenceDecl \<or> truthy evidenceEndorsement
                 \<or> truthy evidenceAdditionalInterest
              then evidence_box ''From Policy:'' evidenceAdditionalInterest
                   @ evidence_box ''From Declarations:'' evidenceDecl
                   @ evidence_box ''From Endorsement:'' evidenceEndorsement
              else [])\<rparr>)"

subsection \<open>Coverage presence cards and three-way cards\<close>

record presence_view =
  pv_name :: string
  pv_cert_policy_number :: string
  pv_policy_policy_number :: "string option"
  pv_status :: badge
  pv_evidence :: "string option"
  pv_notes :: "string option"

definition presence_card :: "item \<Rightarrow> presence_view" where
  "presence_card it =
     \<lparr>pv_name = printed (it ''coverage_name''),
      pv_cert_policy_number = printed (it ''cert_policy_number''),
      pv_policy_policy_number = shown_if_truthy (it ''policy_policy_number''),
      pv_status = presence_badge (it ''status''),
      pv_evidence = shown_if_truthy (it ''evidence''),
      pv_notes = shown_if_truthy (it ''notes'')\<rparr>"

record three_way_view =
  tw_title :: string
  tw_group :: "string option"
  tw_status :: badge
  tw_columns :: "(string \<times> string) list"
  tw_notes :: "string option"
  tw_validator_notes :: "string option"
  tw_evidence :: "(string \<times> string) list"

text \<open>PL certificate against policy against ACORD: a core field and a coverage line.\<close>

definition acord_pl_core_card :: "string \<times> item \<Rightarrow> three_way_view" where
  "acord_pl_core_card e =
     (case e of (field, data) \<Rightarrow>
        \<lparr>tw_title = field_label field,
         tw_group = None,
         tw_status = status_badge (data ''status''),
         tw_columns =
           [(''Policy'', nullish_or (data ''policy_value'') ''N/A''),
            (''PL Certificate'', nullish_or (data ''certificate_value'') ''N/A''),
            (''ACORD'', nullish_or (data ''acord_value'') ''N/A'')],
         tw_notes = shown_if_truthy (data ''notes''),
         tw_validator_notes = None,
         tw_evidence = []\<rparr>)"

definition acord_pl_coverage_card :: "item \<Rightarrow> three_way_view" where
  "acord_pl_coverage_card it =
     \<lparr>tw_title = or_else (it ''coverage_name'') ''Coverage'',
      tw_group = map_option spaced (it ''coverage_group''),
      tw_status = status_badge (it ''status''),
      tw_columns =
        [(''Policy'', nullish_or (it ''policy_value'') ''N/A''),
         (''PL Certificate'', nullish_or (it ''certificate_value'') ''N/A''),
         (''ACORD'', nullish_or (it ''acord_value'') ''N/A'')],
      tw_notes = shown_if_truthy (it ''notes''),
      tw_validator_notes = shown_unless_null (it ''validator_notes''),
      tw_evidence =
        (if truthy (it ''evidence_declarations'') \<or> truthy (it ''evidence_endorsements'')
         then evidence_box ''From Declarations:'' (it ''evidence_declarations'')
              @ evidence_box ''From Endorsement:'' (it ''evidence_endorsements'')
         else [])\<rparr>"

text \<open>GL certificate against policy against GL ACORD.\<close>

definition gl_acord_core_card :: "string \<times> item \<Rightarrow> three_way_view" where
  "gl_acord_core_card e =
     (case e of (field, data) \<Rightarrow>
        \<lparr>tw_title = field_label field,
         tw_group = None,
         tw_status = status_badge (data ''status''),
         tw_columns =
           [(''Policy:'', or_else (data ''policy_value'') ''N/A''),
            (''GL Certificate:'', or_else (data ''certificate_value'') ''N/A''),
            (''GL ACORD:'', or_else (data ''gl_acord_value'') ''N/A'')],
         tw_notes = shown_if_truthy (data ''notes''),
         tw_validator_notes = None,
         tw_evidence = []\<rparr>)"

definition gl_acord_coverage_card :: "item \<Rightarrow> three_way_view" where
  "gl_acord_coverage_card it =
     \<lparr>tw_title = printed (it ''coverage_name''),
      tw_group = None,
      tw_status = status_badge (it ''status''),
      tw_columns =
        [(''Policy:'', or_else (it ''policy_value'') ''N/A''),
         (''GL Certificate:'', or_else (it ''certificate_value'') ''N/A''),
         (''GL ACORD:'', or_else (it ''gl_acord_value'') ''N/A'')],
      tw_notes = shown_if_truthy (it ''notes''),
      tw_validator_notes = shown_unless_null (it ''validator_notes''),
      tw_evidence = evidence_box ''From Policy:'' (it ''evidence'')\<rparr>"

subsection \<open>The validation panel\<close>

text \<open>
  A top-level member of the results that holds a certificate is absent
  (\<^verbatim>\<open>undefined\<close>), \<^verbatim>\<open>null\<close>, or an object; the panel only tests which.
\<close>

datatype member = Absent | IsNull | Given

record cert_validations =
  core_validations :: "(string \<times> item) list"
  coverage_validations :: "(string \<times> item list) list"

record gl_cert_validations = cert_validations +
  address_validations :: "item list"
  coverage_presence_validations :: "item list"

record comparisons =
  core_fields :: "(string \<times> item) list"
  coverages :: "item list"

record qc_results =
  pl_certificate :: member
  gl_certificate :: member
  acord_certificate :: member
  gl_acord_certificate :: member
  certificate :: member
  pl_validations :: "cert_validations option"
  gl_validations :: "gl_cert_validations option"
  acord_pl_comparisons :: "comparisons option"
  gl_acord_comparisons :: "comparisons option"
  legacy_core_validations :: "(string \<times> item) list option"
  legacy_coverage_validations :: "(string \<times> item list) list option"

datatype block =
    Heading string
  | Row row_view
  | Group string "coverage_view list"
  | Interest coverage_view
  | Presence presence_view
  | ThreeWay three_way_view
  | Notice string

text \<open>
  The groups of a coverage validation object: a member that is an empty array renders
  nothing (as does one that is not an array, which the association list does not hold).
\<close>

definition coverage_groups :: "(string \<times> item list) list \<Rightarrow> block list" where
  "coverage_groups cov =
     concat (map (\<lambda>(coverage, items).
                    if items = [] then [] else [Group (spaced coverage) (map CoverageItem items)])
                 cov)"

definition additional_interests_section :: "item list \<Rightarrow> block list" where
  "additional_interests_section plAdditionalInterests =
     (if plAdditionalInterests \<noteq> [] then
        Heading ''Additional Interests Validation'' # map (Interest \<circ> CoverageItem) plAdditionalInterests
      else
        [Heading ''Additional Interests Validation'',
         Notice ''No additional interests found on certificate.''])"

definition validation_panel :: "qc_results \<Rightarrow> block list" where
  "validation_panel r =
     (let hasPlGlFormat = (pl_certificate r \<noteq> Absent \<or> gl_certificate r \<noteq> Absent);
          plCoreValidations =
            (case pl_validations r of None \<Rightarrow> [] | Some v \<Rightarrow> core_validations v);
          plCoverageValidations =
            (case pl_validations r of None \<Rightarrow> [] | Some v \<Rightarrow> coverage_validations v);
          plAdditionalInterests =
            (case map_of plCoverageValidations ''additional_interests'' of
               None \<Rightarrow> [] | Some xs \<Rightarrow> xs);
          plCoverageValidationsFiltered =
            filter (\<lambda>(k, v). k \<noteq> ''additional_interests'') plCoverageValidations;
          glAddressValidations =
            (case gl_validations r of None \<Rightarrow> [] | Some v \<Rightarrow> address_validations v);
          glCoveragePresenceValidations =
            (case gl_validations r of None \<Rightarrow> [] | Some v \<Rightarrow> coverage_presence_validations v);
          glCoverageValidations =
            (case gl_validations r of None \<Rightarrow> [] | Some v \<Rightarrow> coverage_validations v);
          acordPlCoreComparisons =
            (case acord_pl_comparisons r of None \<Rightarrow> [] | Some c \<Rightarrow> core_fields c);
          acordPlCoverageComparisons =
            (case acord_pl_comparisons r of None \<Rightarrow> [] | Some c \<Rightarrow> coverages c);
          glAcordCoreComparisons =
            (case gl_acord_comparisons r of None \<Rightarrow> [] | Some c \<Rightarrow> core_fields c);
          glAcordCoverageComparisons =
            (case gl_acord_comparisons r of None \<Rightarrow> [] | Some c \<Rightarrow> coverages c);
          coreValidations =
            (case legacy_core_validations r of None \<Rightarrow> plCoreValidations | Some v \<Rightarrow> v);
          coverageValidations =
            (case legacy_coverage_validations r of None \<Rightarrow> plCoverageValidations | Some v \<Rightarrow> v);
          hasPl = (pl_certificate r = Given \<or> pl_validations r \<noteq> None);
          hasGl = (gl_certificate r = Given \<or> gl_validations r \<noteq> None);
          hasAcord = (acord_certificate r = Given);
          hasGlAcord = (gl_acord_certificate r = Given)
      in
        (if hasPl then
           Heading ''PL Certificate Results''
           # (if acordPlCoreComparisons = [] \<and> acordPlCoverageComparisons = [] then
                (if plCoreValidations \<noteq> [] then
                   Heading ''Core Field Validation'' # map (Row \<circ> core_row) plCoreValidations
                 else [])
                @ (if plCoverageValidationsFiltered \<noteq> [] then
                     Heading ''Coverage Validation'' # coverage_groups plCoverageValidationsFiltered
                   else [])
                @ additional_interests_section plAdditionalInterests
              else [])
         else [])
        @ (if hasGl then
             Heading ''GL Certificate Results''
             # (if glAcordCoreComparisons = [] \<and> glAcordCoverageComparisons = [] then
                  (if glAddressValidations \<noteq> [] then
                     Heading ''Address Validation'' # map (Row \<circ> address_row) glAddressValidations
                   else [])
                  @ (if glCoveragePresenceValidations \<noteq> [] then
                       Heading ''Coverage Presence Validation''
                       # map (Presence \<circ> presence_card) glCoveragePresenceValidations
                     else [])
                  @ (if glCoverageValidations \<noteq> [] then
                       Heading ''Coverage Validation'' # coverage_groups glCoverageValidations
                     else [])
                else [])
           else [])
        @ (if hasAcord then
             Heading ''ACORD Certificate (Extracted Fields)''
             # (if acordPlCoreComparisons \<noteq> [] then
                  Heading ''PL vs Policy vs ACORD (Core Fields)''
                  # map (ThreeWay \<circ> acord_pl_core_card) acordPlCoreComparisons
                else [])
             @ (if acordPlCoverageComparisons \<noteq> [] then
                  Heading ''PL vs Policy vs ACORD (Coverages)''
                  # map (ThreeWay \<circ> acord_pl_coverage_card) acordPlCoverageComparisons
                else [])
             @ additional_interests_section plAdditionalInterests
           else [])
        @ (if hasGlAcord then [Heading ''GL ACORD Certificate (Extracted Fields)''] else [])
        @ (if hasGlAcord \<and> glAcordCoreComparisons \<noteq> [] then
             Heading ''GL vs Policy vs GL ACORD (Core Fields)''
             # map (ThreeWay \<circ> gl_acord_core_card) glAcordCoreComparisons
           else [])
        @ (if hasGlAcord \<and> glAcordCoverageComparisons \<noteq> [] then
             Heading ''GL vs Policy vs GL ACORD (Coverages)''
             # map (ThreeWay \<circ> gl_acord_coverage_card) glAcordCoverageComparisons
           else [])
        @ (if \<not> hasPlGlFormat then
             (if coreValidations \<noteq> [] then
                Heading ''Core Field Validation'' # map (Row \<circ> core_row) coreValidations
              else [])
             @ (if coverageValidations \<noteq> [] then
                  Heading ''Coverage Validation'' # coverage_groups coverageValidations
                else [])
           else []))"

text \<open>The verdict texts a block shows, and whether it shows the name-variation qualifier.\<close>

fun block_verdicts :: "block \<Rightarrow> string list" where
  "block_verdicts (Row v) = [badge_text (vr_status v)]"
| "block_verdicts (Group title cs) = map (\<lambda>c. badge_text (cv_status c)) cs"
| "block_verdicts (Interest c) = [badge_text (cv_status c)]"
| "block_verdicts (Presence p) = [badge_text (pv_status p)]"
| "block_verdicts (ThreeWay t) = [badge_text (tw_status t)]"
| "block_verdicts (Heading h) = []"
| "block_verdicts (Notice n) = []"


fun shows_variation :: "block \<Rightarrow> bool" where
  "shows_variation (Group title cs) = list_ex (\<lambda>c. cv_variation_badge c \<noteq> None) cs"
| "shows_variation (Interest c) = (cv_variation_badge c \<noteq> None)"
| "shows_variation b = False"

text \<open>
  A three-source result: the insured name on the policy differs from the certificate's by
  one letter, and the building line of the PL certificate is flagged as a name variation
  as well; the backend marks all four items with \<^verbatim>\<open>match_type = NAME_VARIATION\<close>.
\<close>

definition insured_name_validation :: item where
  "insured_name_validation =
     [''certificate_value'' \<mapsto> ''ACME LLC'', ''policy_value'' \<mapsto> ''ACNE LLC'',
      ''status'' \<mapsto> ''MATCH'', ''match_type'' \<mapsto> ''NAME_VARIATION'']"

definition building_line :: item where
  "building_line =
     [''cert_building_name'' \<mapsto> ''Bldg 1 - Main St'', ''cert_building_value'' \<mapsto> ''500000'',
      ''policy_building_value'' \<mapsto> ''500000'',
      ''status'' \<mapsto> ''MATCH'', ''match_type'' \<mapsto> ''NAME_VARIATION'']"

definition insured_name_comparison :: item where
  "insured_name_comparison =
     [''policy_value'' \<mapsto> ''ACNE LLC'', ''certificate_value'' \<mapsto> ''ACME LLC'',
      ''acord_value'' \<mapsto> ''ACME LLC'',
      ''status'' \<mapsto> ''MATCH'', ''match_type'' \<mapsto> ''NAME_VARIATION'']"

definition building_comparison :: item where
  "building_comparison =
     [''coverage_name'' \<mapsto> ''Building'', ''coverage_group'' \<mapsto> ''building'',
      ''policy_value'' \<mapsto> ''500000'', ''certificate_value'' \<mapsto> ''500000'',
      ''acord_value'' \<mapsto> ''500000'',
      ''status'' \<mapsto> ''MATCH'', ''match_type'' \<mapsto> ''NAME_VARIATION'']"

definition three_way_results :: qc_results where
  "three_way_results =
     \<lparr>pl_certificate = Given, gl_certificate = Absent, acord_certificate = Given,
      gl_acord_certificate = Absent, certificate = Absent,
      pl_validations =
        Some \<lparr>core_validations = [(''insured_name'', insured_name_validation)],
               coverage_validations = [(''building'', [building_line])]\<rparr>,
      gl_validations = None,
      acord_pl_comparisons =
        Some \<lparr>core_fields = [(''insured_name'', insured_name_comparison)],
               coverages = [building_comparison]\<rparr>,
      gl_acord_comparisons = None,
      legacy_core_validations = None, legacy_coverage_validations = None\<rparr>"



text \<open>A GL result with one coverage presence item.\<close>

definition liquor_presence :: item where
  "liquor_presence =
     [''coverage_name'' \<mapsto> ''Liquor Liability'', ''cert_policy_number'' \<mapsto> ''GL-9'',
      ''status'' \<mapsto> ''PRESENT'']"

definition gl_presence_results :: qc_results where
  "gl_presence_results =
     \<lparr>pl_certificate = Absent, gl_certificate = Given, acord_certificate = Absent,
      gl_acord_certificate = Absent, certificate = Absent,
      pl_validations = None,
      gl_validations =
        Some \<lparr>core_validations = [], coverage_validations = [],
               address_validations = [], coverage_presence_validations = [liquor_presence]\<rparr>,
      acord_pl_comparisons = None, gl_acord_comparisons = None,
      legacy_core_validations = None, legacy_coverage_validations = None\<rparr>"

text \<open>The verdicts of the closed enumeration.\<close>

definition closed_verdict :: "string \<Rightarrow> bool" where
  "closed_verdict v = (v = ''MATCH'' \<or> v = ''MISMATCH'' \<or> v = ''NOT_FOUND'')"

text \<open>A loss payee whose name differs by one letter, in a two-source result.\<close>

definition loss_payee :: item where
  "loss_payee =
     [''cert_interest_name'' \<mapsto> ''First Natl Bank'', ''policy_interest_name'' \<mapsto> ''First Nat1 Bank'',
      ''status'' \<mapsto> ''MATCH'', ''match_type'' \<mapsto> ''NAME_VARIATION'']"

definition two_way_results :: qc_results where
  "two_way_results =
     \<lparr>pl_certificate = Given, gl_certificate = Absent, acord_certificate = Absent,
      gl_acord_certificate = Absent, certificate = Absent,
      pl_validations =
        Some \<lparr>core_validations = [],
               coverage_validations = [(''additional_interests'', [loss_payee])]\<rparr>,
      gl_validations = None, acord_pl_comparisons = None, gl_acord_comparisons = None,
      legacy_core_validations = None, legacy_coverage_validations = None\<rparr>"

text \<open>No three-way PL data: the condition under which the two-way PL blocks are rendered.\<close>

definition no_acord_pl_data :: "qc_results \<Rightarrow> bool" where
  "no_acord_pl_data r =
     (case acord_pl_comparisons r of
        None \<Rightarrow> True
      | Some c \<Rightarrow> core_fields c = [] \<and> coverages c = [])"

section \<open>The startup script: worker lanes\<close>

text \<open>
  \<^verbatim>\<open>start.sh\<close> (the variant with queue-based routing) writes the credentials file, starts
  two Celery workers in the background and then replaces itself by the web server. The model
  keeps the processes the script leaves running, each with its argument vector as written.
\<close>

datatype launch = Background "string list" | Exec "string list"

definition qc_worker_command :: "string list" where
  "qc_worker_command =
     [''celery'', ''-A'', ''tasks'', ''worker'', ''--loglevel=info'', ''--concurrency=1'',
      ''--queues=qc'', ''--without-mingle'', ''--without-gossip'', ''-n'', ''qc_worker@%h'']"

definition summary_worker_command :: "string list" where
  "summary_worker_command =
     [''celery'', ''-A'', ''tasks'', ''worker'', ''--loglevel=info'', ''--concurrency=1'',
      ''--queues=summary'', ''--without-mingle'', ''--without-gossip'', ''-n'',
      ''summary_worker@%h'']"

definition uvicorn_command :: "string list" where
  "uvicorn_command = [''uvicorn'', ''app:app'', ''--host'', ''0.0.0.0'', ''--port'', ''${PORT:-8000}'']"

definition start_sh :: "launch list" where
  "start_sh =
     [Background qc_worker_command, Background summary_worker_command, Exec uvicorn_command]"

text \<open>
  Reading a worker's command line: the value of \<^verbatim>\<open>--name=value\<close>, a comma-separated
  list, and a decimal number.
\<close>

fun option_value :: "string \<Rightarrow> string list \<Rightarrow> string option" where
  "option_value name [] = None"
| "option_value name (a # args) =
     (if starts_with a (''--'' @ name @ ''='') then Some (drop (length name + 3) a)
      else option_value name args)"

fun split_commas :: "string \<Rightarrow> string list" where
  "split_commas [] = [[]]"
| "split_commas (c # cs) =
     (if c = CHR '','' then [] # split_commas cs
      else (case split_commas cs of [] \<Rightarrow> [[c]] | w # ws \<Rightarrow> (c # w) # ws))"

definition digit_value :: "char \<Rightarrow> nat option" where
  "digit_value c =
     map_of [(CHR ''0'', 0), (CHR ''1'', 1), (CHR ''2'', 2), (CHR ''3'', 3), (CHR ''4'', 4),
             (CHR ''5'', 5), (CHR ''6'', 6), (CHR ''7'', 7), (CHR ''8'', 8), (CHR ''9'', 9)] c"

fun read_nat :: "nat \<Rightarrow> string \<Rightarrow> nat option" where
  "read_nat acc [] = Some acc"
| "read_nat acc (c # cs) =
     (case digit_value c of None \<Rightarrow> None | Some d \<Rightarrow> read_nat (10 * acc + d) cs)"

text \<open>
  A lane is what one worker consumes: the queues named by \<^verbatim>\<open>--queues\<close> and the number
  of units it processes at a time, \<^verbatim>\<open>--concurrency\<close>. A command that is not a Celery
  worker, or that does not name its queues and a numeric concurrency, opens no lane of known
  shape.
\<close>

record lane =
  lane_queues :: "string list"
  lane_concurrency :: nat

definition worker_lane :: "string list \<Rightarrow> lane option" where
  "worker_lane argv =
     (case argv of
        [] \<Rightarrow> None
      | program # args \<Rightarrow>
          if program = ''celery'' \<and> ''worker'' \<in> set args then
            (case (option_value ''queues'' args, option_value ''concurrency'' args) of
               (Some qs, Some n) \<Rightarrow>
                 (case read_nat 0 n of
                    None \<Rightarrow> None
                  | Some k \<Rightarrow> if n = [] then None
                              else Some \<lparr>lane_queues = split_commas qs, lane_concurrency = k\<rparr>)
             | _ \<Rightarrow> None)
          else None)"

fun launched_lanes :: "launch list \<Rightarrow> lane list" where
  "launched_lanes [] = []"
| "launched_lanes (Background argv # ls) =
     (case worker_lane argv of None \<Rightarrow> launched_lanes ls | Some l \<Rightarrow> l # launched_lanes ls)"
| "launched_lanes (Exec argv # ls) =
     (case worker_lane argv of None \<Rightarrow> [] | Some l \<Rightarrow> [l])"

text \<open>The commands that start a Celery worker.\<close>

fun worker_commands :: "launch list \<Rightarrow> string list list" where
  "worker_commands [] = []"
| "worker_commands (Background argv # ls) =
     (if argv \<noteq> [] \<and> hd argv = ''celery'' \<and> ''worker'' \<in> set (tl argv)
      then argv # worker_commands ls else worker_commands ls)"
| "worker_commands (Exec argv # ls) =
     (if argv \<noteq> [] \<and> hd argv = ''celery'' \<and> ''worker'' \<in> set (tl argv) then [argv] else [])"

subsection \<open>The scheduler that runs on the lanes\<close>

text \<open>
  Modelled from the spec: the work units and their routing. The tasks and their routes are
  declared in the backend's \<^verbatim>\<open>tasks\<close> module, which is not among the sources; the spec
  (4.2) gives two unit types and the unit type as routing key.
\<close>

datatype unit_type = QualityControlUnit | SummaryUnit

record work_unit =
  unit_id :: nat
  unit_kind :: unit_type

text \<open>
  Modelled from the spec: the route of a unit, which the backend's \<^verbatim>\<open>tasks\<close> module
  declares; the routing key is the unit type, and the queues are the two that the workers of
  the script consume.
\<close>

definition route :: "unit_type \<Rightarrow> string" where
  "route k = (case k of QualityControlUnit \<Rightarrow> ''qc'' | SummaryUnit \<Rightarrow> ''summary'')"

text \<open>
  Modelled from the spec: the state of the lane scheduler, that is of the worker runtime,
  which is the Celery library and not among the sources: the units waiting on each queue and
  the units each worker processes. Workers are numbered in the order in which the script
  starts them.
\<close>

record scheduler =
  pending :: "string \<Rightarrow> work_unit list"
  running :: "nat \<Rightarrow> work_unit list"

datatype sched_event = Submit work_unit | Start nat string | Finish nat work_unit

text \<open>
  Modelled from the spec: one step of the lane scheduler (4.2 and 5). A unit is enqueued on
  the queue of its type; a worker takes the oldest unit of one of its own queues, and only
  while it processes fewer units than its concurrency; a worker finishes a unit it
  processes.
\<close>

definition sched_step :: "lane list \<Rightarrow> scheduler \<Rightarrow> sched_event \<Rightarrow> scheduler" where
  "sched_step lanes s ev =
     (case ev of
        Submit u \<Rightarrow>
          s\<lparr>pending := (pending s)(route (unit_kind u) := pending s (route (unit_kind u)) @ [u])\<rparr>
      | Start w q \<Rightarrow>
          if w < length lanes \<and> q \<in> set (lane_queues (lanes ! w))
             \<and> length (running s w) < lane_concurrency (lanes ! w)
          then (case pending s q of
                  [] \<Rightarrow> s
                | u # us \<Rightarrow> s\<lparr>pending := (pending s)(q := us),
                                running := (running s)(w := running s w @ [u])\<rparr>)
          else s
      | Finish w u \<Rightarrow> s\<lparr>running := (running s)(w := remove1 u (running s w))\<rparr>)"

definition idle_scheduler :: scheduler where
  "idle_scheduler = \<lparr>pending = (\<lambda>q. []), running = (\<lambda>w. [])\<rparr>"

definition sched_run :: "lane list \<Rightarrow> sched_event list \<Rightarrow> scheduler" where
  "sched_run lanes evs = foldl (sched_step lanes) idle_scheduler evs"

text \<open>What the scheduler keeps true on given lanes.\<close>

definition lanes_respected :: "lane list \<Rightarrow> scheduler \<Rightarrow> bool" where
  "lanes_respected lanes s =
     ((\<forall>q. list_all (\<lambda>u. route (unit_kind u) = q) (pending s q))
      \<and> (\<forall>w. if w < length lanes
               then length (running s w) \<le> lane_concurrency (lanes ! w)
                    \<and> list_all (\<lambda>u. route (unit_kind u) \<in> set (lane_queues (lanes ! w)))
                         (running s w)
               else running s w = []))"

text \<open>Two quality-control units and a summary unit, and a day at the workers.\<close>

definition qc_unit_1 :: work_unit where
  "qc_unit_1 = \<lparr>unit_id = 1, unit_kind = QualityControlUnit\<rparr>"

definition qc_unit_2 :: work_unit where
  "qc_unit_2 = \<lparr>unit_id = 2, unit_kind = QualityControlUnit\<rparr>"

definition summary_unit_3 :: work_unit where
  "summary_unit_3 = \<lparr>unit_id = 3, unit_kind = SummaryUnit\<rparr>"

definition busy_morning :: "sched_event list" where
  "busy_morning =
     [Submit qc_unit_1, Submit qc_unit_2, Submit summary_unit_3,
      Start 0 ''qc'', Start 0 ''qc'', Start 0 ''summary'', Start 1 ''qc'', Start 2 ''qc'']"

chapter \<open>Properties\<close>

section \<open>An in-progress finalize answer keeps the page polling\<close>

text \<open>
  C2. When the answer to a finalize request has \<^verbatim>\<open>inProgress = true\<close>, the invocation
  returns without touching anything but the progress line: the interval stays as it was, no
  error is set, processing is not stopped, completion is not signalled, and no request is
  issued; the next tick of a live interval polls the status again.
\<close>

theorem finalize_inProgress_keeps_polling:
  assumes "inflight s n = Some AwaitFinalize"
    and "body resp = Json d"
    and "inProgress d"
  shows "pollInterval (step s (FinalizeArrives n (Resolved resp))) = pollInterval s
       \<and> error (step s (FinalizeArrives n (Resolved resp))) = error s
       \<and> isProcessing (step s (FinalizeArrives n (Resolved resp))) = isProcessing s
       \<and> isComplete (step s (FinalizeArrives n (Resolved resp))) = isComplete s
       \<and> requests (step s (FinalizeArrives n (Resolved resp))) = requests s
       \<and> (pollInterval s \<longrightarrow>
            requests (step (step s (FinalizeArrives n (Resolved resp))) Tick)
              = requests s @ [GetUploadStatus (uploadId s)])"
  using assms
  by (simp add: step_def on_finalize_def start_invocation_def)

lemma waiting_for_finalize_facts:
  "inflight waiting_for_finalize 1 = Some AwaitFinalize"
  "pollInterval waiting_for_finalize"
  "isProcessing waiting_for_finalize"
  "pollCount waiting_for_finalize = 1"
  "error waiting_for_finalize = None"
  "uploadId waiting_for_finalize = ''job-1''"
  "requests waiting_for_finalize = [GetUploadStatus ''job-1'', GetFinalizeUpload ''job-1'']"
  by (simp_all add: waiting_for_finalize_def step_def start_polling_def start_invocation_def
      on_status_def ready_response_def)

theorem finalize_inProgress_keeps_polling_witness:
  "inflight waiting_for_finalize 1 = Some AwaitFinalize
   \<and> pollInterval (step waiting_for_finalize (FinalizeArrives 1 (Resolved in_progress_response)))
   \<and> error (step waiting_for_finalize (FinalizeArrives 1 (Resolved in_progress_response))) = None
   \<and> isProcessing (step waiting_for_finalize (FinalizeArrives 1 (Resolved in_progress_response)))
   \<and> requests (step (step waiting_for_finalize (FinalizeArrives 1 (Resolved in_progress_response)))
                  Tick)
       = [GetUploadStatus ''job-1'', GetFinalizeUpload ''job-1'', GetUploadStatus ''job-1'']"
proof -
  have b: "body in_progress_response
           = Json \<lparr>inProgress = True, success = False, sheet_url = None,
                   error_field = None, detail = None\<rparr>"
    by (simp add: in_progress_response_def)
  have c: "inProgress \<lparr>inProgress = True, success = False, sheet_url = None,
                       error_field = None, detail = None\<rparr>"
    by simp
  show ?thesis
    using finalize_inProgress_keeps_polling [OF waiting_for_finalize_facts(1) b c]
      waiting_for_finalize_facts
    by simp
qed

text \<open>
  The in-progress branch leaves \<^verbatim>\<open>isFinalizingRef\<close> set. While it is set, an
  invocation that finds the upload ready returns without issuing a finalize request.
\<close>

lemma ready_status_skips_finalize_while_flag_set:
  assumes "inflight s n = Some AwaitStatus" and "isFinalizing s"
    and "status resp \<noteq> 404" and "body resp = Json d" and "ready d"
  shows "requests (step s (StatusArrives n (Resolved resp))) = requests s
       \<and> pollInterval (step s (StatusArrives n (Resolved resp))) = pollInterval s
       \<and> isFinalizing (step s (StatusArrives n (Resolved resp)))"
  using assms by (simp add: step_def on_status_def)

section \<open>A failed finalize attempt is retried\<close>

lemma failed_finalize_step:
  assumes "inflight s n = Some AwaitFinalize"
    and "finalize_failed r" and "retry_budget_left s n r"
  shows "error (step s (FinalizeArrives n r)) = error s
       \<and> pollInterval (step s (FinalizeArrives n r)) = pollInterval s
       \<and> isProcessing (step s (FinalizeArrives n r)) = isProcessing s
       \<and> isComplete (step s (FinalizeArrives n r)) = isComplete s
       \<and> requests (step s (FinalizeArrives n r)) = requests s
       \<and> pollCount (step s (FinalizeArrives n r)) = pollCount s
       \<and> uploadId (step s (FinalizeArrives n r)) = uploadId s
       \<and> \<not> isFinalizing (step s (FinalizeArrives n r))"
  using assms
  by (auto simp add: step_def on_finalize_def on_exception_def finalize_failed_def
      retry_budget_left_def Let_def split: settled.splits parsed.splits)

text \<open>Once the branch's threshold is reached, the same failure is terminal.\<close>

lemma failed_finalize_budget_exhausted:
  assumes "inflight s n = Some AwaitFinalize"
    and "finalize_failed r" and "\<not> retry_budget_left s n r"
  shows "error (step s (FinalizeArrives n r)) \<noteq> None
       \<and> \<not> pollInterval (step s (FinalizeArrives n r))
       \<and> \<not> isProcessing (step s (FinalizeArrives n r))"
  using assms
  by (auto simp add: step_def on_finalize_def on_exception_def finalize_failed_def
      retry_budget_left_def fail_with_def stopPolling_def Let_def
      split: settled.splits parsed.splits)

text \<open>
  Below the thresholds the retry works. Let a finalize attempt fail while its branch's
  threshold is not reached. The failure sets no error, leaves the interval running and
  processing on, and issues nothing. The next tick asks for the status of the same upload
  id; on a ready answer the finalize request for that id is issued again (these two GET
  requests are all that is sent: no upload, no extraction), and a successful answer to it
  completes the flow.
\<close>

lemma failed_finalize_retried_below_threshold:
  assumes "inflight s n = Some AwaitFinalize" and "pollInterval s"
    and "finalize_failed r" and "retry_budget_left s n r"
    and "status sresp \<noteq> 404" and "body sresp = Json sd" and "ready sd"
    and "ok fresp" and "body fresp = Json fd" and "\<not> inProgress fd" and "success fd"
  shows "let s1 = step s (FinalizeArrives n r);
             s2 = step s1 Tick;
             s3 = step s2 (StatusArrives (Suc (pollCount s)) (Resolved sresp));
             s4 = step s3 (FinalizeArrives (Suc (pollCount s)) (Resolved fresp))
         in error s1 = error s \<and> pollInterval s1 \<and> isProcessing s1 = isProcessing s
          \<and> requests s1 = requests s
          \<and> requests s4
              = requests s @ [GetUploadStatus (uploadId s), GetFinalizeUpload (uploadId s)]
          \<and> isComplete s4 \<and> \<not> pollInterval s4 \<and> \<not> isProcessing s4 \<and> error s4 = error s"
proof -
  let ?s1 = "step s (FinalizeArrives n r)"
  have f: "error ?s1 = error s" "pollInterval ?s1" "isProcessing ?s1 = isProcessing s"
    "requests ?s1 = requests s" "pollCount ?s1 = pollCount s" "uploadId ?s1 = uploadId s"
    "\<not> isFinalizing ?s1"
    using failed_finalize_step [OF assms(1,3,4)] assms(2) by simp_all
  show ?thesis
    unfolding Let_def
    using f assms(5-11)
    by (simp add: step_def [of _ Tick] step_def [of _ "StatusArrives _ _"]
        step_def [of _ "FinalizeArrives (Suc (pollCount s)) _"]
        start_invocation_def on_status_def on_finalize_def stopPolling_def)
qed

lemma failed_finalize_retried_below_threshold_example:
  "inflight waiting_for_finalize 1 = Some AwaitFinalize
   \<and> finalize_failed (Resolved sink_unavailable_response)
   \<and> retry_budget_left waiting_for_finalize 1 (Resolved sink_unavailable_response)
   \<and> error (step waiting_for_finalize (FinalizeArrives 1 (Resolved sink_unavailable_response)))
       = None
   \<and> pollInterval (step waiting_for_finalize (FinalizeArrives 1 (Resolved sink_unavailable_response)))
   \<and> requests
        (step (step (step (step waiting_for_finalize
                             (FinalizeArrives 1 (Resolved sink_unavailable_response)))
                 Tick) (StatusArrives 2 (Resolved ready_response)))
           (FinalizeArrives 2 (Resolved pushed_response)))
       = [GetUploadStatus ''job-1'', GetFinalizeUpload ''job-1'',
          GetUploadStatus ''job-1'', GetFinalizeUpload ''job-1'']
   \<and> isComplete
        (step (step (step (step waiting_for_finalize
                             (FinalizeArrives 1 (Resolved sink_unavailable_response)))
                 Tick) (StatusArrives 2 (Resolved ready_response)))
           (FinalizeArrives 2 (Resolved pushed_response)))
   \<and> error
        (step (step (step (step waiting_for_finalize
                             (FinalizeArrives 1 (Resolved sink_unavailable_response)))
                 Tick) (StatusArrives 2 (Resolved ready_response)))
           (FinalizeArrives 2 (Resolved pushed_response))) = None"
proof -
  note s = waiting_for_finalize_facts
  have f: "finalize_failed (Resolved sink_unavailable_response)"
    by (simp add: finalize_failed_def sink_unavailable_response_def ok_def)
  have b: "retry_budget_left waiting_for_finalize 1 (Resolved sink_unavailable_response)"
    by (simp add: retry_budget_left_def sink_unavailable_response_def)
  have r: "status ready_response \<noteq> 404"
    "body ready_response = Json \<lparr>ready = True, completed_files = Some 2, expected_files = Some 2\<rparr>"
    "ready \<lparr>ready = True, completed_files = Some 2, expected_files = Some 2\<rparr>"
    by (simp_all add: ready_response_def)
  have p: "ok pushed_response"
    "body pushed_response
       = Json \<lparr>inProgress = False, success = True, sheet_url = Some ''https://sheet/1'',
               error_field = None, detail = None\<rparr>"
    "\<not> inProgress \<lparr>inProgress = False, success = True, sheet_url = Some ''https://sheet/1'',
                     error_field = None, detail = None\<rparr>"
    "success \<lparr>inProgress = False, success = True, sheet_url = Some ''https://sheet/1'',
               error_field = None, detail = None\<rparr>"
    by (simp_all add: pushed_response_def ok_def)
  show ?thesis
    using failed_finalize_retried_below_threshold [OF s(1) s(2) f b r p] s f b
    by (simp add: Let_def numeral_2_eq_2)
qed

text \<open>The thresholds count polls, and the polls that wait for the extraction count too.\<close>

lemma still_processing_rounds:
  assumes "inflight s = [n \<mapsto> AwaitStatus]" and "pollCount s = n" and "pollInterval s"
    and "n + k < 240"
  shows "inflight (poll_run s (still_processing n k)) = [n + k \<mapsto> AwaitStatus]
       \<and> pollCount (poll_run s (still_processing n k)) = n + k
       \<and> pollInterval (poll_run s (still_processing n k))
       \<and> error (poll_run s (still_processing n k)) = error s
       \<and> isFinalizing (poll_run s (still_processing n k)) = isFinalizing s
       \<and> isProcessing (poll_run s (still_processing n k)) = isProcessing s
       \<and> isComplete (poll_run s (still_processing n k)) = isComplete s
       \<and> uploadId (poll_run s (still_processing n k)) = uploadId s
       \<and> requests (poll_run s (still_processing n k))
           = requests s @ replicate k (GetUploadStatus (uploadId s))"
  using assms
proof (induction k arbitrary: s n)
  case 0
  then show ?case by (simp add: poll_run_def)
next
  case (Suc k)
  let ?t = "step (step s (StatusArrives n (Resolved not_ready_response))) Tick"
  have n: "n < 240" using Suc.prems(4) by simp
  have t: "inflight ?t = [Suc n \<mapsto> AwaitStatus]" "pollCount ?t = Suc n" "pollInterval ?t"
    "error ?t = error s" "isFinalizing ?t = isFinalizing s" "isProcessing ?t = isProcessing s"
    "isComplete ?t = isComplete s" "uploadId ?t = uploadId s"
    "requests ?t = requests s @ [GetUploadStatus (uploadId s)]"
    using Suc.prems(1-3) n
    by (simp_all add: step_def on_status_def start_invocation_def not_ready_response_def
        maxPolls_def fun_eq_iff)
  have k: "Suc n + k < 240" using Suc.prems(4) by simp
  note ih = Suc.IH [OF t(1) t(2) t(3) k]
  have u: "poll_run s (still_processing n (Suc k)) = poll_run ?t (still_processing (Suc n) k)"
    by (simp add: poll_run_def)
  show ?case
    unfolding u using ih t by (simp add: replicate_append_same)
qed

lemma stopped_page_is_inert:
  assumes "\<not> pollInterval s" and "inflight s = Map.empty"
  shows "poll_run s evs = s"
proof -
  have one: "step s e = s" for e
    using assms by (cases e) (simp_all add: step_def stopPolling_def)
  show ?thesis
    unfolding poll_run_def by (induction evs) (simp_all add: one)
qed

text \<open>
  C3 fails on the code for an upload that becomes ready late. The extraction takes 59 polls,
  the 60th poll finds the upload ready and issues the first finalize request, and the sink
  answers 500. The captured attempt 60 is not below the threshold 60, so this first failure
  is terminal: the error is set, the interval is cleared and processing is switched off;
  exactly one finalize request has been sent, and whatever happens later, no second one is.
\<close>

theorem late_ready_upload_gets_no_finalize_retry:
  "requests (poll_run (start_polling ''job-1'') late_ready_run)
     = replicate 60 (GetUploadStatus ''job-1'') @ [GetFinalizeUpload ''job-1'']
   \<and> error (poll_run (start_polling ''job-1'') late_ready_run) = Some ''Sheets unavailable''
   \<and> \<not> pollInterval (poll_run (start_polling ''job-1'') late_ready_run)
   \<and> \<not> isProcessing (poll_run (start_polling ''job-1'') late_ready_run)
   \<and> \<not> isComplete (poll_run (start_polling ''job-1'') late_ready_run)
   \<and> poll_run (poll_run (start_polling ''job-1'') late_ready_run) evs
       = poll_run (start_polling ''job-1'') late_ready_run"
proof -
  let ?s0 = "start_polling ''job-1''"
  let ?w = "poll_run ?s0 (still_processing 1 59)"
  have s0: "inflight ?s0 = [1 \<mapsto> AwaitStatus]" "pollCount ?s0 = 1" "pollInterval ?s0"
    "error ?s0 = None" "\<not> isFinalizing ?s0" "isProcessing ?s0" "\<not> isComplete ?s0"
    "uploadId ?s0 = ''job-1''" "requests ?s0 = [GetUploadStatus ''job-1'']"
    by (simp_all add: start_polling_def start_invocation_def)
  have b: "(1::nat) + 59 < 240" by simp
  note w = still_processing_rounds [OF s0(1) s0(2) s0(3) b]
  have w': "inflight ?w = [60 \<mapsto> AwaitStatus]" "pollCount ?w = 60" "pollInterval ?w"
    "error ?w = None" "\<not> isFinalizing ?w" "isProcessing ?w" "\<not> isComplete ?w"
    "uploadId ?w = ''job-1''"
    "requests ?w = replicate 60 (GetUploadStatus ''job-1'')"
    using w s0 replicate_add [of 1 59 "GetUploadStatus ''job-1''"] by simp_all
  let ?f = "step (step ?w (StatusArrives 60 (Resolved ready_response)))
              (FinalizeArrives 60 (Resolved sink_unavailable_response))"
  have run: "poll_run ?s0 late_ready_run = ?f"
    by (simp add: late_ready_run_def poll_run_def)
  have f: "requests ?f = replicate 60 (GetUploadStatus ''job-1'') @ [GetFinalizeUpload ''job-1'']"
    "error ?f = Some ''Sheets unavailable''" "\<not> pollInterval ?f" "\<not> isProcessing ?f"
    "\<not> isComplete ?f" "inflight ?f = Map.empty"
    using w'
    by (simp_all add: step_def on_status_def on_finalize_def ready_response_def
        sink_unavailable_response_def ok_def fail_with_def stopPolling_def or_else_def Let_def)
  have "poll_run ?f evs = ?f"
    using f(3) f(6) by (rule stopped_page_is_inert)
  with f show ?thesis unfolding run by simp
qed

section \<open>The results poller: what every reachable state satisfies\<close>

lemma chain_inv_step: "chain_inv s \<Longrightarrow> chain_inv (qc_step s e)"
proof (cases e)
  case TimerFires
  assume "chain_inv s"
  with TimerFires show ?thesis
    by (auto simp add: chain_inv_def quiescent_def qc_step_def fetchResults_def
        split: option.splits)
next
  case (FetchSettles r)
  assume "chain_inv s"
  with FetchSettles show ?thesis
    by (cases r)
       (auto simp add: chain_inv_def quiescent_def qc_step_def on_fetch_def on_throw_def
          schedule_retry_def or_else_def maxRetries_def split: option.splits)
next
  case (ErrorBodySettles b)
  assume "chain_inv s"
  with ErrorBodySettles show ?thesis
    by (cases "waiting s")
       (auto simp add: chain_inv_def quiescent_def qc_step_def on_error_body_def on_throw_def
          schedule_retry_def or_else_def maxRetries_def Let_def split: option.splits)
next
  case (BodySettles b)
  assume "chain_inv s"
  with BodySettles show ?thesis
    by (cases b)
       (auto simp add: chain_inv_def quiescent_def qc_step_def on_body_def on_throw_def
          schedule_retry_def or_else_def maxRetries_def null_property_error_def
          split: option.splits)
next
  case Cleanup
  assume "chain_inv s"
  with Cleanup show ?thesis
    by (auto simp add: chain_inv_def quiescent_def qc_step_def split: option.splits)
qed

lemma chain_inv_start: "chain_inv (start_fetching uid api)"
  by (auto simp add: chain_inv_def quiescent_def start_fetching_def run_effect_def mounted_def
      fetchResults_def maxRetries_def)

lemma chain_inv_run: "chain_inv s \<Longrightarrow> chain_inv (qc_run s evs)"
  unfolding qc_run_def
  by (induction evs arbitrary: s) (simp_all add: chain_inv_step)


lemma loaded_run_facts:
  "results (qc_run (start_fetching (Some ''u1'') ''http://localhost:8000'') loaded_run) = Some ()"
  "issued (qc_run (start_fetching (Some ''u1'') ''http://localhost:8000'') loaded_run)
     = [''http://localhost:8000/qc-new/unified-results/u1'']"
  "valid_run (start_fetching (Some ''u1'') ''http://localhost:8000'') loaded_run"
  "quiescent (qc_run (start_fetching (Some ''u1'') ''http://localhost:8000'') loaded_run)"
  "\<not> isCancelled (qc_run (start_fetching (Some ''u1'') ''http://localhost:8000'') loaded_run)"
  by (simp_all add: loaded_run_def ok_head_def qc_run_def start_fetching_def run_effect_def
      mounted_def fetchResults_def truthy_def or_else_def qc_step_def on_fetch_def on_body_def
      ok_def enabled_def quiescent_def)

section \<open>The results poller is bounded and ends with results or an error\<close>

lemma work_left_decreases: "enabled s e \<Longrightarrow> work_left (qc_step s e) < work_left s"
proof (cases e)
  case TimerFires
  assume "enabled s e"
  with TimerFires show ?thesis
    by (auto simp add: enabled_def qc_step_def work_left_def fetchResults_def
        split: option.splits qc_wait.splits)
next
  case (FetchSettles r)
  assume "enabled s e"
  with FetchSettles show ?thesis
    by (cases r)
       (auto simp add: enabled_def qc_step_def work_left_def on_fetch_def on_throw_def
          schedule_retry_def maxRetries_def split: option.splits)
next
  case (ErrorBodySettles b)
  assume "enabled s e"
  with ErrorBodySettles show ?thesis
    by (cases "waiting s")
       (auto simp add: enabled_def qc_step_def work_left_def on_error_body_def on_throw_def
          schedule_retry_def maxRetries_def Let_def split: option.splits)
next
  case (BodySettles b)
  assume "enabled s e"
  with BodySettles show ?thesis
    by (cases b)
       (auto simp add: enabled_def qc_step_def work_left_def on_body_def on_throw_def
          schedule_retry_def maxRetries_def split: option.splits)
next
  case Cleanup
  assume "enabled s e"
  with Cleanup show ?thesis
    by (auto simp add: enabled_def qc_step_def work_left_def split: option.splits qc_wait.splits)
qed

lemma valid_run_bounded: "valid_run s evs \<Longrightarrow> length evs \<le> work_left s"
proof (induction evs arbitrary: s)
  case Nil
  then show ?case by simp
next
  case (Cons e es)
  then have "enabled s e" and "valid_run (qc_step s e) es" by simp_all
  with Cons.IH [of "qc_step s e"] work_left_decreases [of s e]
  show ?case by simp
qed

lemma work_left_start: "work_left (start_fetching uid api) \<le> 2403"
  by (simp add: work_left_def start_fetching_def run_effect_def mounted_def fetchResults_def
      maxRetries_def)

text \<open>
  C5, as the code has it. From the start of the effect, whatever events arrive: at most 601
  requests are issued (the first call and at most 600 retries); a pending timer always has
  the delay 3000 ms; a run in which every event resumes something that waits for it has at
  most 2403 events, so no execution goes on forever; and once a request has been issued and
  nothing is pending any more (and the effect was not cancelled), either the results are
  loaded or an error message is set.
\<close>

theorem results_polling_is_bounded:
  "length (issued (qc_run (start_fetching uid api :: 'r fetcher) evs)) \<le> 601
   \<and> (timeoutId (qc_run (start_fetching uid api :: 'r fetcher) evs) = None
      \<or> timeoutId (qc_run (start_fetching uid api :: 'r fetcher) evs) = Some 3000)
   \<and> (valid_run (start_fetching uid api :: 'r fetcher) evs \<longrightarrow> length evs \<le> 2403)
   \<and> (quiescent (qc_run (start_fetching uid api :: 'r fetcher) evs)
        \<and> \<not> isCancelled (qc_run (start_fetching uid api :: 'r fetcher) evs)
        \<and> issued (qc_run (start_fetching uid api :: 'r fetcher) evs) \<noteq> []
      \<longrightarrow> results (qc_run (start_fetching uid api :: 'r fetcher) evs) \<noteq> None
          \<or> error_text (qc_run (start_fetching uid api :: 'r fetcher) evs) \<noteq> [])"
proof -
  let ?init = "start_fetching uid api :: 'r fetcher"
  let ?s = "qc_run ?init evs"
  have inv: "chain_inv ?s" by (rule chain_inv_run [OF chain_inv_start])
  have "length (issued ?s) \<le> Suc (retryCount ?s)" and "retryCount ?s \<le> 600"
    using inv by (auto simp add: chain_inv_def maxRetries_def split: option.splits)
  then have a: "length (issued ?s) \<le> 601" by simp
  have b: "timeoutId ?s = None \<or> timeoutId ?s = Some 3000"
    using inv by (simp add: chain_inv_def)
  have w: "work_left ?init \<le> 2403" by (rule work_left_start)
  have c: "valid_run ?init evs \<longrightarrow> length evs \<le> 2403"
  proof
    assume "valid_run ?init evs"
    then have "length evs \<le> work_left ?init" by (rule valid_run_bounded)
    with w show "length evs \<le> 2403" by simp
  qed
  have d: "quiescent ?s \<and> \<not> isCancelled ?s \<and> issued ?s \<noteq> []
           \<longrightarrow> results ?s \<noteq> None \<or> error_text ?s \<noteq> []"
    using inv by (simp add: chain_inv_def)
  from a b c d show ?thesis by blast
qed

theorem results_polling_is_bounded_witness:
  "valid_run (start_fetching (Some ''u1'') ''http://localhost:8000'') loaded_run
   \<and> length loaded_run \<le> 2403
   \<and> quiescent (qc_run (start_fetching (Some ''u1'') ''http://localhost:8000'') loaded_run)
   \<and> \<not> isCancelled (qc_run (start_fetching (Some ''u1'') ''http://localhost:8000'') loaded_run)
   \<and> issued (qc_run (start_fetching (Some ''u1'') ''http://localhost:8000'') loaded_run) \<noteq> []
   \<and> results (qc_run (start_fetching (Some ''u1'') ''http://localhost:8000'') loaded_run) \<noteq> None"
  using results_polling_is_bounded [of "Some ''u1''" "''http://localhost:8000''" loaded_run]
    loaded_run_facts
  by simp

lemma qc_run_append: "qc_run s (xs @ ys) = qc_run (qc_run s xs) ys"
  by (simp add: qc_run_def)

lemma not_found_round_effect:
  assumes "waiting s = AwaitFetch" and "\<not> isCancelled s" and "closure_results s = None"
    and "retryCount s < 600"
  shows "waiting (qc_run s not_found_round) = AwaitFetch
       \<and> \<not> isCancelled (qc_run s not_found_round)
       \<and> closure_results (qc_run s not_found_round) = None
       \<and> retryCount (qc_run s not_found_round) = Suc (retryCount s)
       \<and> length (issued (qc_run s not_found_round)) = Suc (length (issued s))"
  using assms
  by (simp add: qc_run_def not_found_round_def not_found_head_def qc_step_def on_fetch_def
      on_error_body_def schedule_retry_def fetchResults_def ok_def maxRetries_def)

lemma not_found_rounds:
  assumes "waiting s = AwaitFetch" and "\<not> isCancelled s" and "closure_results s = None"
    and "retryCount s + k \<le> 600"
  shows "waiting (qc_run s (concat (replicate k not_found_round))) = AwaitFetch
       \<and> \<not> isCancelled (qc_run s (concat (replicate k not_found_round)))
       \<and> closure_results (qc_run s (concat (replicate k not_found_round))) = None
       \<and> retryCount (qc_run s (concat (replicate k not_found_round))) = retryCount s + k
       \<and> length (issued (qc_run s (concat (replicate k not_found_round))))
           = length (issued s) + k"
  using assms
proof (induction k arbitrary: s)
  case 0
  then show ?case by (simp add: qc_run_def)
next
  case (Suc k)
  let ?t = "qc_run s not_found_round"
  have r: "retryCount s < 600" using Suc.prems(4) by simp
  note e = not_found_round_effect [OF Suc.prems(1-3) r]
  have e1: "waiting ?t = AwaitFetch" and e2: "\<not> isCancelled ?t"
    and e3: "closure_results ?t = None" and e4: "retryCount ?t = Suc (retryCount s)"
    and e5: "length (issued ?t) = Suc (length (issued s))"
    using e by simp_all
  have e6: "retryCount ?t + k \<le> 600" using e4 Suc.prems(4) by simp
  note ih = Suc.IH [OF e1 e2 e3 e6]
  have u: "qc_run s (concat (replicate (Suc k) not_found_round))
           = qc_run ?t (concat (replicate k not_found_round))"
    by (simp add: qc_run_append)
  show ?case
    unfolding u using ih e4 e5 by simp
qed

text \<open>
  C5 as stated gives 600 attempts. Against a backend that answers 404 to every request the
  page issues 601 requests: the guard \<^verbatim>\<open>retryCount < maxRetries\<close> admits 600 retries
  after the first call.
\<close>

theorem results_polling_601_requests:
  "length (issued (qc_run (start_fetching (Some ''u1'') ''http://localhost:8000'') never_ready_run))
     = 601"
proof -
  let ?s = "start_fetching (Some ''u1'') ''http://localhost:8000'' :: unit fetcher"
  have s: "waiting ?s = AwaitFetch" "\<not> isCancelled ?s" "closure_results ?s = None"
    "retryCount ?s = 0" "length (issued ?s) = 1"
    by (simp_all add: start_fetching_def run_effect_def mounted_def fetchResults_def
        truthy_def or_else_def)
  have "retryCount ?s + 600 \<le> 600" using s(4) by simp
  from not_found_rounds [OF s(1-3) this] s(5)
  show ?thesis by (simp add: never_ready_run_def)
qed

section \<open>No request after a result or a cancellation\<close>

lemma after_done_step:
  assumes "chain_inv s" and "isCancelled s \<or> results s \<noteq> None"
  shows "issued (qc_step s e) = issued s \<and> timeoutId (qc_step s e) = None
       \<and> (isCancelled (qc_step s e) \<or> results (qc_step s e) \<noteq> None)"
proof (cases e)
  case TimerFires
  with assms show ?thesis
    by (auto simp add: chain_inv_def quiescent_def qc_step_def fetchResults_def
        split: option.splits)
next
  case (FetchSettles r)
  with assms show ?thesis
    by (cases r)
       (auto simp add: chain_inv_def quiescent_def qc_step_def on_fetch_def on_throw_def
          schedule_retry_def split: option.splits)
next
  case (ErrorBodySettles b)
  with assms show ?thesis
    by (cases "waiting s")
       (auto simp add: chain_inv_def quiescent_def qc_step_def on_error_body_def on_throw_def
          schedule_retry_def Let_def split: option.splits)
next
  case (BodySettles b)
  with assms show ?thesis
    by (cases b)
       (auto simp add: chain_inv_def quiescent_def qc_step_def on_body_def on_throw_def
          schedule_retry_def split: option.splits)
next
  case Cleanup
  with assms show ?thesis
    by (auto simp add: chain_inv_def quiescent_def qc_step_def split: option.splits)
qed

lemma after_done_run:
  assumes "chain_inv s" and "isCancelled s \<or> results s \<noteq> None"
  shows "issued (qc_run s evs) = issued s \<and> timeoutId (qc_run s evs) = None"
  using assms
proof (induction evs arbitrary: s)
  case Nil
  then show ?case
    by (auto simp add: qc_run_def chain_inv_def quiescent_def)
next
  case (Cons e es)
  have "chain_inv (qc_step s e)" using Cons.prems(1) by (rule chain_inv_step)
  moreover have "isCancelled (qc_step s e) \<or> results (qc_step s e) \<noteq> None"
    and "issued (qc_step s e) = issued s"
    using after_done_step [OF Cons.prems] by simp_all
  ultimately show ?case
    using Cons.IH [of "qc_step s e"] by (simp add: qc_run_def)
qed

text \<open>
  C10. In any state a run of the effect can reach in which it has been cancelled or results
  have been loaded, whatever events of that run arrive later, no further request is issued
  and no timer is pending.
  With results loaded the effect body itself does nothing when it runs again. The cleanup
  sets the cancelled flag and clears the pending timer.
\<close>

theorem no_fetch_after_result_or_cancel:
  "(isCancelled (qc_run (start_fetching uid api) evs)
      \<or> results (qc_run (start_fetching uid api) evs) \<noteq> None
    \<longrightarrow> issued (qc_run (qc_run (start_fetching uid api) evs) later)
          = issued (qc_run (start_fetching uid api) evs)
        \<and> timeoutId (qc_run (qc_run (start_fetching uid api) evs) later) = None)
   \<and> (results (qc_run (start_fetching uid api) evs) \<noteq> None
      \<longrightarrow> run_effect uid' api' (qc_run (start_fetching uid api) evs)
          = qc_run (start_fetching uid api) evs)
   \<and> isCancelled (qc_step (qc_run (start_fetching uid api) evs) Cleanup)
   \<and> timeoutId (qc_step (qc_run (start_fetching uid api) evs) Cleanup) = None"
proof -
  let ?s = "qc_run (start_fetching uid api) evs"
  have inv: "chain_inv ?s" by (rule chain_inv_run [OF chain_inv_start])
  have "isCancelled ?s \<or> results ?s \<noteq> None
        \<longrightarrow> issued (qc_run ?s later) = issued ?s \<and> timeoutId (qc_run ?s later) = None"
    using after_done_run [OF inv] by blast
  moreover have "results ?s \<noteq> None \<longrightarrow> run_effect uid' api' ?s = ?s"
    by (simp add: run_effect_def)
  moreover have "isCancelled (qc_step ?s Cleanup) \<and> timeoutId (qc_step ?s Cleanup) = None"
    by (simp add: qc_step_def)
  ultimately show ?thesis by blast
qed


theorem no_fetch_after_result_or_cancel_witness:
  "results (qc_run (start_fetching (Some ''u1'') ''http://localhost:8000'') loaded_run) \<noteq> None
   \<and> issued (qc_run (qc_run (start_fetching (Some ''u1'') ''http://localhost:8000'') loaded_run)
               late_events)
       = [''http://localhost:8000/qc-new/unified-results/u1'']
   \<and> timeoutId (qc_run (qc_run (start_fetching (Some ''u1'') ''http://localhost:8000'') loaded_run)
                  late_events) = None"
  using no_fetch_after_result_or_cancel
          [of "Some ''u1''" "''http://localhost:8000''" loaded_run late_events]
    loaded_run_facts
  by simp

section \<open>Which submissions are sent\<close>

text \<open>
  C4 as stated lets any role-tagged certificate stand beside the policy. A submission of the
  policy with an ACORD certificate alone is rejected before anything is sent: the guard asks
  for a PL or a GL certificate.
\<close>

theorem upload_policy_and_acord_rejected:
  "policyFile policy_and_acord \<noteq> None
   \<and> acordCertificateFile policy_and_acord \<noteq> None
   \<and> sent (handleUpload (Some ''ana'') queued_answer policy_and_acord) = []
   \<and> form_error (handleUpload (Some ''ana'') queued_answer policy_and_acord)
       = ''Please upload at least one certificate (PL or GL) and the policy PDF''"
  by (simp add: policy_and_acord_def empty_page_def handleUpload_def)

text \<open>
  C4, as the code has it. A request is sent exactly when the policy and at least one of the
  PL and GL certificates are attached; the ACORD certificates are optional and do not count.
  A submission that is not sent leaves an error message and changes neither the upload id
  nor the navigation. A submission that is sent carries every attached file and the policy;
  when it is answered ok with an upload id, that id is stored and the page navigates to the
  results of that id.
\<close>

theorem upload_sent_iff_policy_and_pl_or_gl:
  "(sent (handleUpload user outcome s) \<noteq> sent s)
     = (policyFile s \<noteq> None \<and> (plCertificateFile s \<noteq> None \<or> glCertificateFile s \<noteq> None))
   \<and> (\<not> (policyFile s \<noteq> None \<and> (plCertificateFile s \<noteq> None \<or> glCertificateFile s \<noteq> None))
      \<longrightarrow> form_error (handleUpload user outcome s) \<noteq> []
        \<and> form_uploadId (handleUpload user outcome s) = form_uploadId s
        \<and> navigated (handleUpload user outcome s) = navigated s)
   \<and> (policyFile s \<noteq> None \<and> (plCertificateFile s \<noteq> None \<or> glCertificateFile s \<noteq> None)
      \<longrightarrow> sent (handleUpload user outcome s)
          = sent s @ [\<lparr>url = form_apiUrl s @ ''/qc-new/upload-unified'',
                       form_data = build_form user s,
                       user_id_header = or_else user ''user''\<rparr>]
        \<and> (\<forall>resp d uid. outcome = Answered resp \<and> ok resp \<and> body resp = Json d
               \<and> upload_id d = Some uid \<and> uid \<noteq> []
             \<longrightarrow> form_uploadId (handleUpload user outcome s) = uid
               \<and> navigated (handleUpload user outcome s) = Some (''/qc-new-results?id='' @ uid)))"
proof -
  have build: "build_form user (s\<lparr>uploading := True, form_error := [], form_results := None\<rparr>)
               = build_form user s"
    by (simp add: build_form_def)
  have sent_changes: "sent s @ [r] \<noteq> sent s" for r :: upload_request
    by simp
  show ?thesis
    by (auto simp add: handleUpload_def upload_failed_def Let_def build
        split: upload_outcome.splits parsed.splits option.splits)
qed

theorem upload_sent_iff_policy_and_pl_or_gl_witness:
  "policyFile policy_and_pl \<noteq> None
   \<and> plCertificateFile policy_and_pl \<noteq> None
   \<and> sent (handleUpload (Some ''ana'') queued_answer policy_and_pl)
       = [\<lparr>url = ''http://localhost:8000/qc-new/upload-unified'',
           form_data = [(''pl_certificate_pdf'', FilePart ''pl-cert.pdf''),
                        (''policy_pdf'', FilePart ''policy.pdf''),
                        (''username'', TextPart ''ana'')],
           user_id_header = ''ana''\<rparr>]
   \<and> form_uploadId (handleUpload (Some ''ana'') queued_answer policy_and_pl) = ''u-77''
   \<and> navigated (handleUpload (Some ''ana'') queued_answer policy_and_pl)
       = Some ''/qc-new-results?id=u-77''
   \<and> \<not> (policyFile empty_page \<noteq> None
          \<and> (plCertificateFile empty_page \<noteq> None \<or> glCertificateFile empty_page \<noteq> None))
   \<and> form_error (handleUpload (Some ''ana'') queued_answer empty_page) \<noteq> []"
proof -
  have files: "policyFile policy_and_pl = Some ''policy.pdf''"
    "plCertificateFile policy_and_pl = Some ''pl-cert.pdf''"
    "glCertificateFile policy_and_pl = None" "acordCertificateFile policy_and_pl = None"
    "glAcordCertificateFile policy_and_pl = None" "sent policy_and_pl = []"
    "form_apiUrl policy_and_pl = ''http://localhost:8000''"
    by (simp_all add: policy_and_pl_def empty_page_def)
  have none: "policyFile empty_page = None" "plCertificateFile empty_page = None"
    "glCertificateFile empty_page = None"
    by (simp_all add: empty_page_def)
  have answer: "queued_answer =
     Answered \<lparr>status = 200, statusText = ''OK'',
               body = Json \<lparr>u_message = Some ''queued'', u_error = None, u_detail = None,
                            upload_id = Some ''u-77'', task_id = Some ''t-1''\<rparr>\<rparr>"
    by (simp add: queued_answer_def)
  show ?thesis
    using upload_sent_iff_policy_and_pl_or_gl [of "Some ''ana''" queued_answer policy_and_pl]
      upload_sent_iff_policy_and_pl_or_gl [of "Some ''ana''" queued_answer empty_page]
      files none
    by (simp add: answer build_form_def append_file_def or_else_def ok_def)
qed

section \<open>Flattening omits absent fields and tags every entry\<close>

lemma keep_tagged:
  "\<forall>e\<in>set es. tagged (snd e) \<Longrightarrow> those (map (keep_or_wrap c) es) = Some es"
  by (induction es)
     (auto simp add: keep_or_wrap_def tagged_def split: jsval.splits prod.splits)

lemma well_tagged_nil: "well_tagged f []"
  by (simp add: well_tagged_def)

lemma well_tagged_append:
  "well_tagged f (xs @ ys) = (well_tagged f xs \<and> well_tagged f ys)"
  by (auto simp add: well_tagged_def)

lemma well_tagged_black:
  "well_tagged f [(k, JObj [(''value'', d), (''color'', JStr ''black'')])]"
  by (simp add: well_tagged_def tagged_def colour_of_def has_key_def get_prop_def)

lemma flatten_well_tagged:
  "\<exists>es. flattenData f kvs p = Some es \<and> well_tagged f es"
proof (induction f kvs p rule: flattenData.induct)
  case (1 isFlagged prefix)
  show ?case by (simp add: well_tagged_def)
next
  case (2 isFlagged key fieldData rest prefix)
  let ?k = "new_key prefix key"
  have first: "\<exists>pushed.
      (case fieldData of
           JNull \<Rightarrow> Some []
         | JUndefined \<Rightarrow> Some []
         | JObj kvs \<Rightarrow>
             if isFlagged \<and> has_key ''value'' kvs \<and> has_key ''color'' kvs then
               (case get_prop kvs ''value'' of
                  JObj vkvs \<Rightarrow>
                    (case flattenData isFlagged vkvs (new_key prefix key) of
                       None \<Rightarrow> None
                     | Some nestedEntries \<Rightarrow>
                         those (map (keep_or_wrap (get_prop kvs ''color'')) nestedEntries))
                | _ \<Rightarrow> Some [(new_key prefix key, fieldData)])
             else flattenData isFlagged kvs (new_key prefix key)
         | _ \<Rightarrow>
             Some [(new_key prefix key,
                    JObj [(''value'', fieldData), (''color'', JStr ''black'')])]) = Some pushed
      \<and> well_tagged isFlagged pushed"
  proof (cases fieldData)
    case (JObj kvs)
    show ?thesis
    proof (cases "isFlagged \<and> has_key ''value'' kvs \<and> has_key ''color'' kvs")
      case True
      note flagged = True
      show ?thesis
      proof (cases "get_prop kvs ''value''")
        case (JObj vkvs)
        from "2.IH"(1) [OF \<open>fieldData = JObj kvs\<close> flagged JObj]
        obtain es where es: "flattenData isFlagged vkvs ?k = Some es" "well_tagged isFlagged es"
          by blast
        then have "those (map (keep_or_wrap (get_prop kvs ''color'')) es) = Some es"
          by (simp add: keep_tagged well_tagged_def)
        with es flagged JObj \<open>fieldData = JObj kvs\<close> show ?thesis by simp
      qed (use flagged \<open>fieldData = JObj kvs\<close> in
            \<open>simp_all add: well_tagged_def tagged_def\<close>)
    next
      case False
      from "2.IH"(2) [OF \<open>fieldData = JObj kvs\<close> False]
      show ?thesis using False \<open>fieldData = JObj kvs\<close> by auto
    qed
  qed (simp_all add: well_tagged_black well_tagged_nil)
  then obtain pushed where pushed: "(case fieldData of
           JNull \<Rightarrow> Some []
         | JUndefined \<Rightarrow> Some []
         | JObj kvs \<Rightarrow>
             if isFlagged \<and> has_key ''value'' kvs \<and> has_key ''color'' kvs then
               (case get_prop kvs ''value'' of
                  JObj vkvs \<Rightarrow>
                    (case flattenData isFlagged vkvs (new_key prefix key) of
                       None \<Rightarrow> None
                     | Some nestedEntries \<Rightarrow>
                         those (map (keep_or_wrap (get_prop kvs ''color'')) nestedEntries))
                | _ \<Rightarrow> Some [(new_key prefix key, fieldData)])
             else flattenData isFlagged kvs (new_key prefix key)
         | _ \<Rightarrow>
             Some [(new_key prefix key,
                    JObj [(''value'', fieldData), (''color'', JStr ''black'')])]) = Some pushed"
    and wt: "well_tagged isFlagged pushed"
    by blast
  from "2.IH"(3) [OF pushed]
  obtain more_entries where rest: "flattenData isFlagged rest prefix = Some more_entries"
    "well_tagged isFlagged more_entries"
    by blast
  have "flattenData isFlagged ((key, fieldData) # rest) prefix = Some (pushed @ more_entries)"
    using pushed rest(1) by simp
  then show ?case using wt rest(2) by (simp add: well_tagged_append)
qed

lemma flatten_skips_absent:
  "flattenData f (filter present kvs) p = flattenData f kvs p"
proof (induction kvs)
  case Nil
  show ?case by simp
next
  case (Cons e kvs)
  obtain k d where e: "e = (k, d)" by (cases e)
  show ?case
  proof (cases "present e")
    case True
    then show ?thesis using Cons.IH e by (simp cong: option.case_cong)
  next
    case False
    then have "d = JNull \<or> d = JUndefined" using e by (simp add: present_def)
    then have "flattenData f (e # kvs) p = flattenData f kvs p"
      using e by (auto split: option.splits)
    with False Cons.IH show ?thesis by simp
  qed
qed


text \<open>
  C9. The keys whose value is \<^verbatim>\<open>null\<close> or \<^verbatim>\<open>undefined\<close> contribute nothing: the
  result is that of the object without them. The function always returns (the TypeError of
  its inner loop cannot happen), every entry it returns is an object with a \<^verbatim>\<open>value\<close>
  and a \<^verbatim>\<open>color\<close> key, a field that is neither absent nor an object is paired with the
  colour \<^verbatim>\<open>black\<close>, and without flags every entry carries \<^verbatim>\<open>black\<close>.
\<close>

theorem flattenData_omits_absent_and_tags_entries:
  "flattenData isFlagged (filter present obj) prefix = flattenData isFlagged obj prefix
   \<and> (\<exists>entries. flattenData isFlagged obj prefix = Some entries
         \<and> (\<forall>e\<in>set entries. tagged (snd e))
         \<and> (\<not> isFlagged \<longrightarrow> (\<forall>e\<in>set entries. colour_of (snd e) = JStr ''black'')))
   \<and> (leaf d \<longrightarrow>
         flattenData isFlagged [(key, d)] prefix
           = Some [(new_key prefix key, JObj [(''value'', d), (''color'', JStr ''black'')])])"
proof -
  obtain entries where "flattenData isFlagged obj prefix = Some entries"
    and "well_tagged isFlagged entries"
    using flatten_well_tagged [of isFlagged obj prefix] by blast
  then have "\<exists>entries. flattenData isFlagged obj prefix = Some entries
         \<and> (\<forall>e\<in>set entries. tagged (snd e))
         \<and> (\<not> isFlagged \<longrightarrow> (\<forall>e\<in>set entries. colour_of (snd e) = JStr ''black''))"
    by (auto simp add: well_tagged_def)
  moreover have "leaf d \<longrightarrow>
         flattenData isFlagged [(key, d)] prefix
           = Some [(new_key prefix key, JObj [(''value'', d), (''color'', JStr ''black'')])]"
    by (cases d) (simp_all add: leaf_def)
  ultimately show ?thesis
    using flatten_skips_absent [of isFlagged obj prefix] by blast
qed

theorem flattenData_omits_absent_and_tags_entries_witness:
  "flattenData False sample_fields []
     = Some [(''policy_number'', JObj [(''value'', JStr ''PN-1''), (''color'', JStr ''black'')]),
             (''insured > name'', JObj [(''value'', JStr ''Acme''), (''color'', JStr ''black'')]),
             (''limit > value'', JObj [(''value'', JNum 1000), (''color'', JStr ''black'')]),
             (''limit > color'', JObj [(''value'', JStr ''green''), (''color'', JStr ''black'')])]
   \<and> flattenData False (filter present sample_fields) [] = flattenData False sample_fields []
   \<and> list_all (\<lambda>e. tagged (snd e) \<and> colour_of (snd e) = JStr ''black'')
        (the (flattenData False sample_fields []))
   \<and> leaf (JStr ''PN-1'')
   \<and> flattenData True [(''policy_number'', JStr ''PN-1'')] ''policy''
       = Some [(''policy > policy_number'',
                JObj [(''value'', JStr ''PN-1''), (''color'', JStr ''black'')])]"
proof -
  have v: "flattenData False sample_fields []
     = Some [(''policy_number'', JObj [(''value'', JStr ''PN-1''), (''color'', JStr ''black'')]),
             (''insured > name'', JObj [(''value'', JStr ''Acme''), (''color'', JStr ''black'')]),
             (''limit > value'', JObj [(''value'', JNum 1000), (''color'', JStr ''black'')]),
             (''limit > color'', JObj [(''value'', JStr ''green''), (''color'', JStr ''black'')])]"
    by (simp add: sample_fields_def new_key_def)
  have l: "leaf (JStr ''PN-1'')" by (simp add: leaf_def)
  show ?thesis
    using flattenData_omits_absent_and_tags_entries
            [of False sample_fields "[]" "JStr ''PN-1''" "''policy_number''"]
      flattenData_omits_absent_and_tags_entries
            [of True "[]" "''policy''" "JStr ''PN-1''" "''policy_number''"]
      l
    by (simp add: v new_key_def list_all_iff)
qed

section \<open>One verdict per compared field\<close>

text \<open>The definitions that evaluate the panel on a given result object.\<close>

lemmas render_defs =
  validation_panel_def coverage_groups_def additional_interests_section_def
  acord_pl_core_card_def acord_pl_coverage_card_def gl_acord_core_card_def
  gl_acord_coverage_card_def presence_card_def presence_badge_def core_row_def address_row_def
  ValidationRow_def CoverageItem_def status_badge_def status_class_def evidence_box_def
  shown_unless_null_def shown_if_truthy_def printed_def nullish_or_def or_else_def truthy_def
  is_name_variation_def field_label_def spaced_def upper_char_def








lemma map_unless_empty: "(if xs \<noteq> [] then map f xs else []) = map f xs"
  by simp










section \<open>The statuses that are displayed\<close>

text \<open>
  C7 as stated closes the set of verdicts. A coverage presence item carries the status
  \<^verbatim>\<open>PRESENT\<close>, which the panel prints on a green badge.
\<close>

theorem presence_status_outside_enumeration:
  "concat (map block_verdicts (validation_panel gl_presence_results)) = [''PRESENT'']
   \<and> \<not> closed_verdict ''PRESENT''
   \<and> badge_class (pv_status (presence_card liquor_presence)) = ''bg-green-100 text-green-700''"
  by (simp add: gl_presence_results_def liquor_presence_def closed_verdict_def render_defs)

text \<open>
  C7, as the code has it. Every badge prints the status of its item as received. The verdict
  badge is green exactly for \<^verbatim>\<open>MATCH\<close>, red exactly for \<^verbatim>\<open>MISMATCH\<close> and
  \<^verbatim>\<open>NOT_FOUND\<close>, and yellow for every other status; the presence badge is green exactly
  for \<^verbatim>\<open>PRESENT\<close> and red otherwise. This holds of validation rows, coverage items,
  additional interests, presence cards and three-way coverage cards alike.
\<close>

theorem verdict_badges_print_any_status:
  "badge_text (status_badge st) = printed st
   \<and> (badge_class (status_badge st) = ''bg-green-100 text-green-700'') = (st = Some ''MATCH'')
   \<and> (badge_class (status_badge st) = ''bg-red-100 text-red-700'')
       = (st = Some ''MISMATCH'' \<or> st = Some ''NOT_FOUND'')
   \<and> (badge_class (status_badge st) = ''bg-yellow-100 text-yellow-700'')
       = (st \<notin> {Some ''MATCH'', Some ''MISMATCH'', Some ''NOT_FOUND''})
   \<and> badge_text (presence_badge st) = printed st
   \<and> (badge_class (presence_badge st) = ''bg-green-100 text-green-700'') = (st = Some ''PRESENT'')
   \<and> (badge_class (presence_badge st) = ''bg-red-100 text-red-700'') = (st \<noteq> Some ''PRESENT'')
   \<and> block_verdicts (Row (core_row (field, data))) = [printed (data ''status'')]
   \<and> block_verdicts (Row (address_row it)) = [printed (it ''status'')]
   \<and> block_verdicts (Interest (CoverageItem it)) = [printed (it ''status'')]
   \<and> block_verdicts (Group g (map CoverageItem its)) = map (\<lambda>i. printed (i ''status'')) its
   \<and> block_verdicts (Presence (presence_card it)) = [printed (it ''status'')]
   \<and> block_verdicts (ThreeWay (acord_pl_coverage_card it)) = [printed (it ''status'')]
   \<and> block_verdicts (ThreeWay (gl_acord_coverage_card it)) = [printed (it ''status'')]"
proof -
  have badge: "badge_text (status_badge st) = printed st"
    "(badge_class (status_badge st) = ''bg-green-100 text-green-700'') = (st = Some ''MATCH'')"
    "(badge_class (status_badge st) = ''bg-red-100 text-red-700'')
       = (st = Some ''MISMATCH'' \<or> st = Some ''NOT_FOUND'')"
    "(badge_class (status_badge st) = ''bg-yellow-100 text-yellow-700'')
       = (st \<notin> {Some ''MATCH'', Some ''MISMATCH'', Some ''NOT_FOUND''})"
    by (auto simp add: status_badge_def status_class_def)
  have presence: "badge_text (presence_badge st) = printed st"
    "(badge_class (presence_badge st) = ''bg-green-100 text-green-700'') = (st = Some ''PRESENT'')"
    "(badge_class (presence_badge st) = ''bg-red-100 text-red-700'') = (st \<noteq> Some ''PRESENT'')"
    by (auto simp add: presence_badge_def)
  have item_text: "badge_text (cv_status (CoverageItem i)) = printed (i ''status'')" for i
    by (simp add: CoverageItem_def Let_def status_badge_def)
  have rows: "block_verdicts (Row (core_row (field, data))) = [printed (data ''status'')]"
    "block_verdicts (Row (address_row it)) = [printed (it ''status'')]"
    by (simp_all add: core_row_def address_row_def ValidationRow_def status_badge_def)
  have cards: "block_verdicts (Presence (presence_card it)) = [printed (it ''status'')]"
    "block_verdicts (ThreeWay (acord_pl_coverage_card it)) = [printed (it ''status'')]"
    "block_verdicts (ThreeWay (gl_acord_coverage_card it)) = [printed (it ''status'')]"
    by (simp_all add: presence_card_def presence_badge_def acord_pl_coverage_card_def
        gl_acord_coverage_card_def status_badge_def)
  have group: "block_verdicts (Group g (map CoverageItem its))
               = map (\<lambda>i. printed (i ''status'')) its"
    by (simp add: item_text comp_def)
  show ?thesis
    using badge presence rows cards group item_text [of it] by simp
qed

section \<open>Where the name-variation qualifier is shown\<close>

text \<open>
  C8 as stated has every item with \<^verbatim>\<open>match_type = NAME_VARIATION\<close> surfaced with the
  qualifier. In the three-source result below the core validation, the building line and
  both three-way entries carry the qualifier, and no block of the panel shows it: the
  two-way PL blocks are not rendered when three-way data is present, and the three-way cards
  do not read \<^verbatim>\<open>match_type\<close>.
\<close>

theorem name_variation_hidden_in_three_way_view:
  "is_name_variation insured_name_validation
   \<and> is_name_variation building_line
   \<and> is_name_variation insured_name_comparison
   \<and> is_name_variation building_comparison
   \<and> \<not> list_ex shows_variation (validation_panel three_way_results)"
  by (simp add: three_way_results_def insured_name_validation_def building_line_def
      insured_name_comparison_def building_comparison_def render_defs)

lemma coverage_item_badge:
  "is_name_variation it \<Longrightarrow> cv_variation_badge (CoverageItem it) = Some ''OCR Variation''"
  by (simp add: CoverageItem_def Let_def)

lemma coverage_item_notice:
  "is_name_variation it \<Longrightarrow> truthy (it ''cert_interest_name'')
   \<Longrightarrow> \<not> truthy (it ''cert_limit_key'') \<Longrightarrow> cv_variation_notice (CoverageItem it) \<noteq> None"
  by (simp add: CoverageItem_def Let_def)

lemma interests_rendered:
  assumes "pl_validations r = Some v"
    and "no_acord_pl_data r \<or> acord_certificate r = Given"
    and "map_of (coverage_validations v) ''additional_interests'' = Some its"
    and "it \<in> set its"
  shows "Interest (CoverageItem it) \<in> set (validation_panel r)"
proof -
  have its: "its \<noteq> []" using assms(4) by auto
  have sec: "Interest (CoverageItem it) \<in> set (additional_interests_section its)"
    using assms(4) its by (simp add: additional_interests_section_def)
  show ?thesis
    using assms(1-3) sec
    by (auto simp add: validation_panel_def Let_def no_acord_pl_data_def split: option.splits)
qed

lemma groups_rendered:
  assumes "pl_validations r = Some v"
    and "no_acord_pl_data r"
    and "(k, its) \<in> set (coverage_validations v)"
    and "k \<noteq> ''additional_interests''"
    and "its \<noteq> []"
  shows "Group (spaced k) (map CoverageItem its) \<in> set (validation_panel r)"
proof -
  let ?f = "filter (\<lambda>(k, v). k \<noteq> ''additional_interests'') (coverage_validations v)"
  have mem: "(k, its) \<in> set ?f" using assms(3,4) by simp
  have ne: "?f \<noteq> []"
  proof
    assume "?f = []"
    with mem have "(k, its) \<in> set []" by simp
    then show False by simp
  qed
  have "Group (spaced k) (map CoverageItem its) \<in> set (coverage_groups ?f)"
    using mem assms(5) by (force simp add: coverage_groups_def)
  then show ?thesis
    using assms(1,2) ne
    by (auto simp add: validation_panel_def Let_def no_acord_pl_data_def split: option.splits)
qed

text \<open>
  C8, as the code has it. An item rendered by \<^verbatim>\<open>CoverageItem\<close> whose
  \<^verbatim>\<open>match_type\<close> is \<^verbatim>\<open>NAME_VARIATION\<close> shows the badge \<^verbatim>\<open>OCR Variation\<close>
  beside its status, alone or within its group, and an additional interest also shows the
  name-variation notice. The panel renders every additional interest of the PL validations
  through \<^verbatim>\<open>CoverageItem\<close> when there is no three-way PL data or an ACORD certificate
  is present, and every non-empty PL coverage group when there is no three-way PL data.
\<close>

theorem coverage_item_shows_name_variation:
  "(is_name_variation it \<longrightarrow>
      cv_variation_badge (CoverageItem it) = Some ''OCR Variation''
      \<and> shows_variation (Interest (CoverageItem it))
      \<and> (it \<in> set its \<longrightarrow> shows_variation (Group g (map CoverageItem its)))
      \<and> (truthy (it ''cert_interest_name'') \<and> \<not> truthy (it ''cert_limit_key'')
           \<longrightarrow> cv_variation_notice (CoverageItem it) \<noteq> None))
   \<and> (pl_validations r = Some v
        \<and> (no_acord_pl_data r \<or> acord_certificate r = Given)
        \<and> map_of (coverage_validations v) ''additional_interests'' = Some its
        \<and> it \<in> set its
      \<longrightarrow> Interest (CoverageItem it) \<in> set (validation_panel r))
   \<and> (pl_validations r = Some v \<and> no_acord_pl_data r
        \<and> (k, its) \<in> set (coverage_validations v) \<and> k \<noteq> ''additional_interests'' \<and> its \<noteq> []
      \<longrightarrow> Group (spaced k) (map CoverageItem its) \<in> set (validation_panel r))"
proof -
  have "is_name_variation it \<Longrightarrow> it \<in> set its
        \<Longrightarrow> shows_variation (Group g (map CoverageItem its))"
    using coverage_item_badge [of it] by (force simp add: list_ex_iff)
  then show ?thesis
    using coverage_item_badge [of it] coverage_item_notice [of it]
      interests_rendered [of r v its it] groups_rendered [of r v k its]
    by auto
qed

theorem coverage_item_shows_name_variation_witness:
  "is_name_variation loss_payee
   \<and> cv_variation_badge (CoverageItem loss_payee) = Some ''OCR Variation''
   \<and> cv_variation_notice (CoverageItem loss_payee) \<noteq> None
   \<and> pl_validations two_way_results
       = Some \<lparr>core_validations = [], coverage_validations = [(''additional_interests'', [loss_payee])]\<rparr>
   \<and> no_acord_pl_data two_way_results
   \<and> Interest (CoverageItem loss_payee) \<in> set (validation_panel two_way_results)
   \<and> list_ex shows_variation (validation_panel two_way_results)"
proof -
  have a: "is_name_variation loss_payee" "truthy (loss_payee ''cert_interest_name'')"
    "\<not> truthy (loss_payee ''cert_limit_key'')"
    by (simp_all add: is_name_variation_def loss_payee_def truthy_def)
  have b: "pl_validations two_way_results
       = Some \<lparr>core_validations = [], coverage_validations = [(''additional_interests'', [loss_payee])]\<rparr>"
    "no_acord_pl_data two_way_results"
    by (simp_all add: two_way_results_def no_acord_pl_data_def)
  have c: "map_of (coverage_validations
                     \<lparr>core_validations = [], coverage_validations = [(''additional_interests'', [loss_payee])]\<rparr>)
             ''additional_interests'' = Some [loss_payee]"
    "loss_payee \<in> set [loss_payee]"
    by simp_all
  from coverage_item_shows_name_variation
         [of loss_payee "[loss_payee]" "''g''" two_way_results
             "\<lparr>core_validations = [], coverage_validations = [(''additional_interests'', [loss_payee])]\<rparr>"
             "''building''"]
    a b c
  have d: "cv_variation_badge (CoverageItem loss_payee) = Some ''OCR Variation''"
    "cv_variation_notice (CoverageItem loss_payee) \<noteq> None"
    "Interest (CoverageItem loss_payee) \<in> set (validation_panel two_way_results)"
    by simp_all
  have "shows_variation (Interest (CoverageItem loss_payee))"
    using d(1) by simp
  with d(3) have "list_ex shows_variation (validation_panel two_way_results)"
    unfolding list_ex_iff by blast
  with a b d show ?thesis by simp
qed

section \<open>Two lanes, one unit at a time\<close>

lemma start_sh_lanes:
  "launched_lanes start_sh
     = [\<lparr>lane_queues = [''qc''], lane_concurrency = 1\<rparr>,
        \<lparr>lane_queues = [''summary''], lane_concurrency = 1\<rparr>]"
  by (simp add: start_sh_def qc_worker_command_def summary_worker_command_def
      uvicorn_command_def worker_lane_def digit_value_def)

lemma start_sh_workers:
  "worker_commands start_sh = [qc_worker_command, summary_worker_command]"
  by (simp add: start_sh_def qc_worker_command_def summary_worker_command_def
      uvicorn_command_def)

lemma lanes_respected_idle: "lanes_respected lanes idle_scheduler"
  by (simp add: lanes_respected_def idle_scheduler_def)

lemma lanes_respected_step:
  assumes "lanes_respected lanes s"
  shows "lanes_respected lanes (sched_step lanes s ev)"
proof (cases ev)
  case (Submit u)
  with assms show ?thesis
    by (auto simp add: lanes_respected_def sched_step_def)
next
  case (Start w q)
  show ?thesis
  proof (cases "w < length lanes \<and> q \<in> set (lane_queues (lanes ! w))
                \<and> length (running s w) < lane_concurrency (lanes ! w)")
    case False
    with assms Start show ?thesis by (auto simp add: sched_step_def)
  next
    case True
    note ok = True
    show ?thesis
    proof (cases "pending s q")
      case Nil
      with assms Start ok show ?thesis by (simp add: sched_step_def)
    next
      case (Cons u us)
      from assms have "list_all (\<lambda>u. route (unit_kind u) = q) (pending s q)"
        by (simp add: lanes_respected_def)
      with Cons have u: "route (unit_kind u) = q"
        and us: "list_all (\<lambda>u. route (unit_kind u) = q) us"
        by simp_all
      have step: "sched_step lanes s ev
                  = s\<lparr>pending := (pending s)(q := us),
                      running := (running s)(w := running s w @ [u])\<rparr>"
        using Start ok Cons by (simp add: sched_step_def)
      show ?thesis
        unfolding step using assms ok u us
        by (auto simp add: lanes_respected_def)
    qed
  qed
next
  case (Finish w u)
  have len: "length (remove1 u xs) \<le> length xs" for xs :: "work_unit list"
    by (induction xs) auto
  have all: "list_all P xs \<Longrightarrow> list_all P (remove1 u xs)" for P and xs :: "work_unit list"
    by (induction xs) auto
  have step: "sched_step lanes s ev = s\<lparr>running := (running s)(w := remove1 u (running s w))\<rparr>"
    using Finish by (simp add: sched_step_def)
  have p: "\<forall>q. list_all (\<lambda>u. route (unit_kind u) = q) (pending s q)"
    using assms by (simp add: lanes_respected_def)
  have r: "if v < length lanes
           then length (running s v) \<le> lane_concurrency (lanes ! v)
                \<and> list_all (\<lambda>u. route (unit_kind u) \<in> set (lane_queues (lanes ! v)))
                     (running s v)
           else running s v = []" for v
    using assms by (simp add: lanes_respected_def)
  have r': "if v < length lanes
            then length (((running s)(w := remove1 u (running s w))) v)
                   \<le> lane_concurrency (lanes ! v)
                 \<and> list_all (\<lambda>u. route (unit_kind u) \<in> set (lane_queues (lanes ! v)))
                      (((running s)(w := remove1 u (running s w))) v)
            else ((running s)(w := remove1 u (running s w))) v = []" for v
  proof (cases "v = w")
    case False
    then show ?thesis using r [of v] by simp
  next
    case True
    show ?thesis
    proof (cases "w < length lanes")
      case True
      with r [of w] have a: "length (running s w) \<le> lane_concurrency (lanes ! w)"
        and b: "list_all (\<lambda>u. route (unit_kind u) \<in> set (lane_queues (lanes ! w))) (running s w)"
        by simp_all
      from a len [of "running s w"]
      have "length (remove1 u (running s w)) \<le> lane_concurrency (lanes ! w)"
        by (rule_tac order_trans)
      with all [OF b] True \<open>v = w\<close> show ?thesis by simp
    next
      case False
      with r [of w] have "running s w = []" by simp
      with False \<open>v = w\<close> show ?thesis by simp
    qed
  qed
  have sel: "pending (s\<lparr>running := R\<rparr>) = pending s" "running (s\<lparr>running := R\<rparr>) = R" for R
    by simp_all
  show ?thesis
    unfolding step lanes_respected_def sel using p r' by blast
qed

lemma lanes_respected_run: "lanes_respected lanes (sched_run lanes evs)"
proof -
  have "lanes_respected lanes s \<Longrightarrow> lanes_respected lanes (foldl (sched_step lanes) s evs)" for s
    by (induction evs arbitrary: s) (simp_all add: lanes_respected_step)
  then show ?thesis
    unfolding sched_run_def using lanes_respected_idle by blast
qed

text \<open>
  C6. The script starts exactly two Celery workers; read from their command lines, the first
  consumes only the queue \<^verbatim>\<open>qc\<close> and the second only the queue \<^verbatim>\<open>summary\<close>,
  each with concurrency 1. On the scheduler of the spec, whatever units are submitted and
  whatever the workers try, each of the two workers processes at most one unit at a time,
  the first only quality-control units and the second only summary units, and no other
  worker processes anything.
\<close>

theorem two_lanes_one_unit_each:
  "worker_commands start_sh = [qc_worker_command, summary_worker_command]
   \<and> launched_lanes start_sh
       = [\<lparr>lane_queues = [''qc''], lane_concurrency = 1\<rparr>,
          \<lparr>lane_queues = [''summary''], lane_concurrency = 1\<rparr>]
   \<and> length (running (sched_run (launched_lanes start_sh) evs) 0) \<le> 1
   \<and> length (running (sched_run (launched_lanes start_sh) evs) 1) \<le> 1
   \<and> list_all (\<lambda>u. unit_kind u = QualityControlUnit)
        (running (sched_run (launched_lanes start_sh) evs) 0)
   \<and> list_all (\<lambda>u. unit_kind u = SummaryUnit)
        (running (sched_run (launched_lanes start_sh) evs) 1)
   \<and> (2 \<le> w \<longrightarrow> running (sched_run (launched_lanes start_sh) evs) w = [])"
proof -
  let ?lanes = "launched_lanes start_sh"
  let ?s = "sched_run ?lanes evs"
  have inv: "lanes_respected ?lanes ?s" by (rule lanes_respected_run)
  have l: "length ?lanes = 2" "?lanes ! 0 = \<lparr>lane_queues = [''qc''], lane_concurrency = 1\<rparr>"
    "?lanes ! 1 = \<lparr>lane_queues = [''summary''], lane_concurrency = 1\<rparr>"
    by (simp_all add: start_sh_lanes)
  have w0: "length (running ?s 0) \<le> 1
            \<and> list_all (\<lambda>u. route (unit_kind u) \<in> set [''qc'']) (running ?s 0)"
    using inv l unfolding lanes_respected_def
    by (metis lane.select_convs(1,2) zero_less_numeral)
  have w1: "length (running ?s 1) \<le> 1
            \<and> list_all (\<lambda>u. route (unit_kind u) \<in> set [''summary'']) (running ?s 1)"
    using inv l unfolding lanes_respected_def
    by (metis lane.select_convs(1,2) one_less_numeral_iff semiring_norm(76))
  have rest: "2 \<le> w \<longrightarrow> running ?s w = []"
    using inv l unfolding lanes_respected_def
    by (metis not_less)
  have qc: "route k \<in> set [''qc''] \<Longrightarrow> k = QualityControlUnit" for k
    by (cases k) (simp_all add: route_def)
  have su: "route k \<in> set [''summary''] \<Longrightarrow> k = SummaryUnit" for k
    by (cases k) (simp_all add: route_def)
  have a0: "list_all (\<lambda>u. unit_kind u = QualityControlUnit) (running ?s 0)"
    using w0 qc unfolding list_all_iff by blast
  have a1: "list_all (\<lambda>u. unit_kind u = SummaryUnit) (running ?s 1)"
    using w1 su unfolding list_all_iff by blast
  show ?thesis
    using start_sh_workers start_sh_lanes w0 w1 a0 a1 rest by simp
qed

theorem two_lanes_one_unit_each_witness:
  "running (sched_run (launched_lanes start_sh) busy_morning) 0 = [qc_unit_1]
   \<and> running (sched_run (launched_lanes start_sh) busy_morning) 1 = []
   \<and> pending (sched_run (launched_lanes start_sh) busy_morning) ''qc'' = [qc_unit_2]
   \<and> pending (sched_run (launched_lanes start_sh) busy_morning) ''summary'' = [summary_unit_3]
   \<and> (2::nat) \<le> 2
   \<and> running (sched_run (launched_lanes start_sh) busy_morning) 2 = []"
proof -
  have e: "running (sched_run (launched_lanes start_sh) busy_morning) 0 = [qc_unit_1]"
    "running (sched_run (launched_lanes start_sh) busy_morning) 1 = []"
    "pending (sched_run (launched_lanes start_sh) busy_morning) ''qc'' = [qc_unit_2]"
    "pending (sched_run (launched_lanes start_sh) busy_morning) ''summary'' = [summary_unit_3]"
    by (simp_all add: start_sh_lanes sched_run_def busy_morning_def sched_step_def
        idle_scheduler_def qc_unit_1_def qc_unit_2_def summary_unit_3_def route_def)
  have h: "(2::nat) \<le> 2" by simp
  from two_lanes_one_unit_each [of busy_morning 2] h
  have "running (sched_run (launched_lanes start_sh) busy_morning) 2 = []" by blast
  with e h show ?thesis by blast
qed

end
